theory Spec2Isabelle
  imports Main "HOL-Library.Word" "HOL-Library.Signed_Division"
begin

unbundle bit_operations_syntax

section \<open>The SD109 companion-microcontroller driver (sd109.c, sd109.h)\<close>

text \<open>
  The driver talks to the device through sixteen-bit registers on an I2C regmap and keeps
  its bookkeeping in one \<open>struct sd109_private\<close>. The model below follows sd109.c
  function by function. C integers are machine words: \<open>int\<close> and \<open>unsigned int\<close> are
  32-bit words (read with \<open>sint\<close> where the C code compares or divides signed values),
  \<open>time64_t\<close> is a signed 64-bit word, \<open>u16\<close> and \<open>u8\<close> are 16- and 8-bit words, and
  \<open>unsigned long\<close> (the type of \<open>jiffies\<close>) is a word whose width \<open>'j\<close> is left open,
  since it is 32 or 64 bits depending on the platform.
\<close>

type_synonym u8 = "8 word"
type_synonym u16 = "16 word"
type_synonym u32 = "32 word"
type_synonym s32 = "32 word"
type_synonym time64_t = "64 word"

subsection \<open>Constants of sd109.h\<close>

abbreviation (input) NUM_CH_VIN :: nat where "NUM_CH_VIN \<equiv> 5"

abbreviation (input) SD109_CHIP_ID_REG :: nat where "SD109_CHIP_ID_REG \<equiv> 0x00"
abbreviation (input) SD109_CHIP_ID :: u32 where "SD109_CHIP_ID \<equiv> 0xd109"
abbreviation (input) SD109_CHIP_VER_REG :: nat where "SD109_CHIP_VER_REG \<equiv> 0x01"

abbreviation (input) SD109_STATUS :: nat where "SD109_STATUS \<equiv> 0x02"
abbreviation (input) SD109_STATUS_POWERUP :: u32 where "SD109_STATUS_POWERUP \<equiv> 0x0001"
abbreviation (input) SD109_STATUS_POWEROFF :: u32 where "SD109_STATUS_POWEROFF \<equiv> 0x0002"
abbreviation (input) SD109_STATUS_REBOOT :: u32 where "SD109_STATUS_REBOOT \<equiv> 0x0003"
abbreviation (input) SD109_STATUS_HALT :: u32 where "SD109_STATUS_HALT \<equiv> 0x0004"
abbreviation (input) SD109_STATUS_WAKEUP :: u32 where "SD109_STATUS_WAKEUP \<equiv> 0x0005"

abbreviation (input) SD109_COMMAND :: nat where "SD109_COMMAND \<equiv> 0x06"
abbreviation (input) SD109_WDOG_ENABLE :: u32 where "SD109_WDOG_ENABLE \<equiv> 0x01"
abbreviation (input) SD109_WDOG_DISABLE :: u32 where "SD109_WDOG_DISABLE \<equiv> 0x02"
abbreviation (input) SD109_EXEC_POWEROFF :: u32 where "SD109_EXEC_POWEROFF \<equiv> 0x03"
abbreviation (input) SD109_EXEC_REBOOT :: u32 where "SD109_EXEC_REBOOT \<equiv> 0x04"
abbreviation (input) SD109_EXEC_HALT :: u32 where "SD109_EXEC_HALT \<equiv> 0x05"

abbreviation (input) SD109_WDOG_REFRESH :: nat where "SD109_WDOG_REFRESH \<equiv> 0x08"
abbreviation (input) SD109_WDOG_REFRESH_MAGIC_VALUE :: u32 where
  "SD109_WDOG_REFRESH_MAGIC_VALUE \<equiv> 0x0d1e"
abbreviation (input) SD109_WDOG_TIMEOUT :: nat where "SD109_WDOG_TIMEOUT \<equiv> 0x09"
abbreviation (input) SD109_WDOG_TIMEOUT_MASK :: u32 where "SD109_WDOG_TIMEOUT_MASK \<equiv> 0x00FF"
abbreviation (input) SD109_WDOG_TIMEOUT_POS :: nat where "SD109_WDOG_TIMEOUT_POS \<equiv> 0"
abbreviation (input) SD109_WDOG_WAIT_MASK :: u32 where "SD109_WDOG_WAIT_MASK \<equiv> 0xFF00"
abbreviation (input) SD109_WDOG_WAIT_POS :: nat where "SD109_WDOG_WAIT_POS \<equiv> 8"

abbreviation (input) SD109_VOLTAGE_5V_BOARD :: nat where "SD109_VOLTAGE_5V_BOARD \<equiv> 0x0A"
abbreviation (input) SD109_VOLTAGE_5V_BOARD_MIN :: nat where "SD109_VOLTAGE_5V_BOARD_MIN \<equiv> 0x0B"
abbreviation (input) SD109_VOLTAGE_5V_BOARD_MAX :: nat where "SD109_VOLTAGE_5V_BOARD_MAX \<equiv> 0x0C"

abbreviation (input) SD109_RTC0 :: nat where "SD109_RTC0 \<equiv> 0x1A"
abbreviation (input) SD109_RTC1 :: nat where "SD109_RTC1 \<equiv> 0x1B"
abbreviation (input) SD109_RTC2 :: nat where "SD109_RTC2 \<equiv> 0x1C"
abbreviation (input) SD109_WAKEUP0 :: nat where "SD109_WAKEUP0 \<equiv> 0x1D"
abbreviation (input) SD109_WAKEUP1 :: nat where "SD109_WAKEUP1 \<equiv> 0x1E"
abbreviation (input) SD109_WAKEUP2 :: nat where "SD109_WAKEUP2 \<equiv> 0x1F"

abbreviation (input) SD109_MIN_WDOG_WAIT :: s32 where "SD109_MIN_WDOG_WAIT \<equiv> 45"

text \<open>
  The error numbers the driver returns (negated), with the values of the kernel's errno
  headers, and the notifier's completion value.
\<close>

abbreviation (input) ENOMEM :: int where "ENOMEM \<equiv> 12"
abbreviation (input) ENODEV :: int where "ENODEV \<equiv> 19"
abbreviation (input) EINVAL :: int where "EINVAL \<equiv> 22"
abbreviation (input) EOPNOTSUPP :: int where "EOPNOTSUPP \<equiv> 95"
abbreviation (input) NOTIFY_DONE :: int where "NOTIFY_DONE \<equiv> 0"

text \<open>C's \<open>/\<close> on \<open>int\<close>: the quotient truncated towards zero.\<close>

definition int_div :: "s32 \<Rightarrow> s32 \<Rightarrow> s32" where
  "int_div a b = word_of_int (sint a sdiv sint b)"

subsection \<open>The world outside the driver: register bus, kernel log, registrations\<close>

datatype bus_op = RegRead nat | RegWrite nat u32

datatype loglevel = KERN_ERR | KERN_INFO

datatype facade = HWMON | WATCHDOG | RTC | REBOOT_NOTIFIER

text \<open>
  \<open>regs\<close> are the device's registers by address; \<open>outcomes\<close> lists the error numbers of
  the bus transactions still to come (0 for a transaction that succeeds; once the list
  is used up every transaction succeeds); \<open>trace\<close> records every transaction issued,
  oldest first, failed ones included; \<open>klog\<close> holds the diagnostics printed (the format
  string of each, without its trailing newline); \<open>registered\<close> lists what the driver has
  registered with the kernel's frameworks.
\<close>

record world =
  regs :: "nat \<Rightarrow> u16"
  outcomes :: "nat list"
  trace :: "bus_op list"
  klog :: "(loglevel \<times> string) list"
  registered :: "facade list"

text \<open>
  Modelled from the spec: the RegisterClient of section 4.1 (the kernel's regmap, which
  is not part of sd109.c). A read yields the sixteen-bit register zero-extended, or
  fails with a negative error number and leaves the caller's variable (\<open>old\<close>) as it
  was; a write stores the low sixteen bits of the value, or fails with a negative error
  number and leaves the register as it was.
\<close>

definition next_fails :: "world \<Rightarrow> bool" where
  "next_fails w = (case outcomes w of [] \<Rightarrow> False | e # _ \<Rightarrow> e \<noteq> 0)"

definition next_ret :: "world \<Rightarrow> int" where
  "next_ret w = (case outcomes w of [] \<Rightarrow> 0 | e # _ \<Rightarrow> - int e)"

definition regmap_read :: "nat \<Rightarrow> u32 \<Rightarrow> world \<Rightarrow> int \<times> u32 \<times> world" where
  "regmap_read reg old w =
     (next_ret w,
      (if next_fails w then old else ucast (regs w reg)),
      w\<lparr>outcomes := tl (outcomes w), trace := trace w @ [RegRead reg]\<rparr>)"

definition regmap_write :: "nat \<Rightarrow> u32 \<Rightarrow> world \<Rightarrow> int \<times> world" where
  "regmap_write reg v w =
     (next_ret w,
      w\<lparr>regs := (if next_fails w then regs w else (regs w)(reg := ucast v)),
        outcomes := tl (outcomes w), trace := trace w @ [RegWrite reg v]\<rparr>)"

definition dev_err :: "string \<Rightarrow> world \<Rightarrow> world" where
  "dev_err m w = w\<lparr>klog := klog w @ [(KERN_ERR, m)]\<rparr>"

definition dev_info :: "string \<Rightarrow> world \<Rightarrow> world" where
  "dev_info m w = w\<lparr>klog := klog w @ [(KERN_INFO, m)]\<rparr>"

definition register_facade :: "facade \<Rightarrow> world \<Rightarrow> world" where
  "register_facade f w = w\<lparr>registered := registered w @ [f]\<rparr>"

text \<open>
  Modelled from the spec: the age test of section 4.2, as the kernel's \<open>time_after(a, b)\<close>
  computes it on the wrapping tick counter: \<open>(long)(b - a) < 0\<close>.
\<close>

definition time_after :: "'j::len word \<Rightarrow> 'j word \<Rightarrow> bool" where
  "time_after a b = (sint (b - a) < 0)"

subsection \<open>struct sd109_private\<close>

text \<open>
  The fields of the C struct, without its handles (\<open>client\<close>, \<open>regmap\<close>, \<open>rtc\<close>) and its
  mutex: the model is sequential, one call at a time. Of the embedded
  \<open>struct watchdog_device wdd\<close> the fields the driver writes are kept: \<open>timeout\<close> and the
  no-way-out status bit. \<open>wdt_info_firmware_version\<close> is the \<open>firmware_version\<close> field of
  the file's static \<open>sd109_wdt_info\<close>. The type parameter \<open>'t\<close> is the type of the
  \<open>unsigned long\<close> timestamps, a word \<open>'j word\<close> everywhere below.
\<close>

record 't sd109_private =
  wdd_timeout :: u32
  wdd_nowayout :: bool
  wdt_info_firmware_version :: u32
  overlay_wdog_nowayout :: bool
  overlay_wdog_timeout :: s32
  overlay_wdog_wait :: s32
  device_wdog_timeout :: s32
  device_wdog_wait :: s32
  wdog_wait :: s32
  firmware_version :: u16
  alarm_enabled :: bool
  alarm_pending :: bool
  volt_valid :: "bool list"
  volt :: "u16 list"
  volt_updated :: "'t list"
  volt_max_valid :: "bool list"
  volt_max :: "u16 list"
  volt_max_updated :: "'t list"
  volt_min_valid :: "bool list"
  volt_min :: "u16 list"
  volt_min_updated :: "'t list"

text \<open>What \<open>devm_kzalloc\<close> returns: every field zero.\<close>

definition sd109_private_zero :: "('j::len) word sd109_private" where
  "sd109_private_zero =
     \<lparr>wdd_timeout = 0, wdd_nowayout = False, wdt_info_firmware_version = 0,
      overlay_wdog_nowayout = False, overlay_wdog_timeout = 0, overlay_wdog_wait = 0,
      device_wdog_timeout = 0, device_wdog_wait = 0, wdog_wait = 0,
      firmware_version = 0, alarm_enabled = False, alarm_pending = False,
      volt_valid = replicate NUM_CH_VIN False, volt = replicate NUM_CH_VIN 0,
      volt_updated = replicate NUM_CH_VIN 0,
      volt_max_valid = replicate NUM_CH_VIN False, volt_max = replicate NUM_CH_VIN 0,
      volt_max_updated = replicate NUM_CH_VIN 0,
      volt_min_valid = replicate NUM_CH_VIN False, volt_min = replicate NUM_CH_VIN 0,
      volt_min_updated = replicate NUM_CH_VIN 0\<rparr>"

text \<open>The arrays of the struct have \<open>NUM_CH_VIN\<close> elements each.\<close>

definition arrays_ok :: "('j::len) word sd109_private \<Rightarrow> bool" where
  "arrays_ok data =
     (length (volt_valid data) = NUM_CH_VIN \<and> length (volt data) = NUM_CH_VIN \<and>
      length (volt_updated data) = NUM_CH_VIN \<and>
      length (volt_max_valid data) = NUM_CH_VIN \<and> length (volt_max data) = NUM_CH_VIN \<and>
      length (volt_max_updated data) = NUM_CH_VIN \<and>
      length (volt_min_valid data) = NUM_CH_VIN \<and> length (volt_min data) = NUM_CH_VIN \<and>
      length (volt_min_updated data) = NUM_CH_VIN)"

subsection \<open>Voltage monitoring (HWMON)\<close>

text \<open>
  \<open>sd109_get_voltage\<close>, \<open>sd109_get_voltage_max\<close> and \<open>sd109_get_voltage_min\<close>. The
  kernel's tick counter \<open>jiffies\<close> is read twice, in the age test and when the time of
  the refresh is stored, with the bus transaction in between: \<open>j0\<close> and \<open>j1\<close> are the two
  values read. \<open>HZ\<close> is the kernel's number of ticks per second. The local \<open>voltage\<close>
  starts at 0 and is what the function returns on every path.
\<close>

definition sd109_get_voltage ::
  "'j::len word \<Rightarrow> 'j word \<Rightarrow> 'j word \<Rightarrow> u8 \<Rightarrow> 'j word sd109_private \<Rightarrow> world
     \<Rightarrow> s32 \<times> 'j word sd109_private \<times> world" where
  "sd109_get_voltage HZ j0 j1 ch data w =
     (if unat ch < NUM_CH_VIN then
        if time_after j0 (volt_updated data ! unat ch + HZ) \<or> \<not> volt_valid data ! unat ch
        then
          (case regmap_read (SD109_VOLTAGE_5V_BOARD + unat ch * 3) 0 w of
             (ret, voltage, w1) \<Rightarrow>
               if ret < 0
               then (voltage, data, dev_err ''failed to read I2C when get voltage'' w1)
               else (voltage,
                     data\<lparr>volt := (volt data)[unat ch := ucast voltage],
                          volt_updated := (volt_updated data)[unat ch := j1],
                          volt_valid := (volt_valid data)[unat ch := True]\<rparr>,
                     w1))
        else (ucast (volt data ! unat ch), data, w)
      else (0, data, w))"

definition sd109_get_voltage_max ::
  "'j::len word \<Rightarrow> 'j word \<Rightarrow> 'j word \<Rightarrow> u8 \<Rightarrow> 'j word sd109_private \<Rightarrow> world
     \<Rightarrow> s32 \<times> 'j word sd109_private \<times> world" where
  "sd109_get_voltage_max HZ j0 j1 ch data w =
     (if unat ch < NUM_CH_VIN then
        if time_after j0 (volt_max_updated data ! unat ch + HZ)
           \<or> \<not> volt_max_valid data ! unat ch
        then
          (case regmap_read (SD109_VOLTAGE_5V_BOARD_MAX + unat ch * 3) 0 w of
             (ret, voltage, w1) \<Rightarrow>
               if ret < 0
               then (voltage, data, dev_err ''failed to read I2C when get MAX voltage'' w1)
               else (voltage,
                     data\<lparr>volt_max := (volt_max data)[unat ch := ucast voltage],
                          volt_max_updated := (volt_max_updated data)[unat ch := j1],
                          volt_max_valid := (volt_max_valid data)[unat ch := True]\<rparr>,
                     w1))
        else (ucast (volt_max data ! unat ch), data, w)
      else (0, data, w))"

definition sd109_get_voltage_min ::
  "'j::len word \<Rightarrow> 'j word \<Rightarrow> 'j word \<Rightarrow> u8 \<Rightarrow> 'j word sd109_private \<Rightarrow> world
     \<Rightarrow> s32 \<times> 'j word sd109_private \<times> world" where
  "sd109_get_voltage_min HZ j0 j1 ch data w =
     (if unat ch < NUM_CH_VIN then
        if time_after j0 (volt_min_updated data ! unat ch + HZ)
           \<or> \<not> volt_min_valid data ! unat ch
        then
          (case regmap_read (SD109_VOLTAGE_5V_BOARD_MIN + unat ch * 3) 0 w of
             (ret, voltage, w1) \<Rightarrow>
               if ret < 0
               then (voltage, data, dev_err ''failed to read I2C when get MIN voltage'' w1)
               else (voltage,
                     data\<lparr>volt_min := (volt_min data)[unat ch := ucast voltage],
                          volt_min_updated := (volt_min_updated data)[unat ch := j1],
                          volt_min_valid := (volt_min_valid data)[unat ch := True]\<rparr>,
                     w1))
        else (ucast (volt_min data ! unat ch), data, w)
      else (0, data, w))"

text \<open>
  The attributes and sensor types of the hwmon framework that the driver's switches
  name; every other one is \<open>hwmon_in_other\<close>, \<open>hwmon_other\<close>.
\<close>

datatype hwmon_in_attributes =
  hwmon_in_input | hwmon_in_min | hwmon_in_max | hwmon_in_label | hwmon_in_other

datatype hwmon_sensor_types = hwmon_in | hwmon_other

text \<open>
  \<open>sd109_read_in\<close>: the result is the return code with what was stored through \<open>val\<close>
  (\<open>None\<close> when nothing was). \<open>channel\<close> is an \<open>int\<close>, compared signed, and converted to
  \<open>u8\<close> in the call.
\<close>

definition sd109_read_in ::
  "'j::len word \<Rightarrow> 'j word \<Rightarrow> 'j word \<Rightarrow> hwmon_in_attributes \<Rightarrow> s32
     \<Rightarrow> 'j word sd109_private \<Rightarrow> world
     \<Rightarrow> int \<times> s32 option \<times> 'j word sd109_private \<times> world" where
  "sd109_read_in HZ j0 j1 attr channel data w =
     (case attr of
        hwmon_in_input \<Rightarrow>
          if channel <s 5
          then (case sd109_get_voltage HZ j0 j1 (ucast channel) data w of
                  (v, data', w') \<Rightarrow> (0, Some v, data', w'))
          else (- EOPNOTSUPP, None, data, w)
      | hwmon_in_max \<Rightarrow>
          if channel <s 5
          then (case sd109_get_voltage_max HZ j0 j1 (ucast channel) data w of
                  (v, data', w') \<Rightarrow> (0, Some v, data', w'))
          else (- EOPNOTSUPP, None, data, w)
      | hwmon_in_min \<Rightarrow>
          if channel <s 5
          then (case sd109_get_voltage_min HZ j0 j1 (ucast channel) data w of
                  (v, data', w') \<Rightarrow> (0, Some v, data', w'))
          else (- EOPNOTSUPP, None, data, w)
      | _ \<Rightarrow> (- EOPNOTSUPP, None, data, w))"

definition sd109_read ::
  "'j::len word \<Rightarrow> 'j word \<Rightarrow> 'j word \<Rightarrow> hwmon_sensor_types \<Rightarrow> hwmon_in_attributes \<Rightarrow> s32
     \<Rightarrow> 'j word sd109_private \<Rightarrow> world
     \<Rightarrow> int \<times> s32 option \<times> 'j word sd109_private \<times> world" where
  "sd109_read HZ j0 j1 type attr channel data w =
     (case type of
        hwmon_in \<Rightarrow> sd109_read_in HZ j0 j1 attr channel data w
      | _ \<Rightarrow> (- EOPNOTSUPP, None, data, w))"

subsection \<open>Watchdog\<close>

definition sd109_wdt_ping :: "world \<Rightarrow> int \<times> world" where
  "sd109_wdt_ping w = regmap_write SD109_WDOG_REFRESH SD109_WDOG_REFRESH_MAGIC_VALUE w"

definition sd109_wdt_start :: "world \<Rightarrow> int \<times> world" where
  "sd109_wdt_start w = regmap_write SD109_COMMAND SD109_WDOG_ENABLE w"

definition sd109_wdt_stop :: "world \<Rightarrow> int \<times> world" where
  "sd109_wdt_stop w = regmap_write SD109_COMMAND SD109_WDOG_DISABLE w"

text \<open>
  The register value \<open>sd109_wdt_settimeout\<close> builds from \<open>data->wdog_wait\<close> and \<open>to\<close>
  (its two assignments to \<open>reg\<close>), and the two fields \<open>sd109_wdog_init\<close> takes out of the
  value \<open>tinfo\<close> it reads back.
\<close>

definition wdt_reg :: "s32 \<Rightarrow> u32 \<Rightarrow> u32" where
  "wdt_reg wait to =
     (push_bit SD109_WDOG_WAIT_POS (int_div wait 5) AND SD109_WDOG_WAIT_MASK)
       OR push_bit SD109_WDOG_TIMEOUT_POS (to AND SD109_WDOG_TIMEOUT_MASK)"

definition tinfo_timeout :: "s32 \<Rightarrow> s32" where
  "tinfo_timeout tinfo = drop_bit SD109_WDOG_TIMEOUT_POS (tinfo AND SD109_WDOG_TIMEOUT_MASK)"

definition tinfo_wait :: "s32 \<Rightarrow> s32" where
  "tinfo_wait tinfo = drop_bit SD109_WDOG_WAIT_POS (tinfo AND SD109_WDOG_WAIT_MASK) * 5"

text \<open>
  \<open>sd109_wdt_settimeout\<close>. The kernel's \<open>watchdog_timeout_invalid\<close> is the parameter
  \<open>timeout_invalid\<close>. The result of the register write is assigned to \<open>ret\<close> and not
  looked at: the timeout is recorded and 0 returned whatever it is.
\<close>

definition sd109_wdt_settimeout ::
  "(u32 \<Rightarrow> bool) \<Rightarrow> u32 \<Rightarrow> 'j word sd109_private \<Rightarrow> world
     \<Rightarrow> int \<times> 'j word sd109_private \<times> world" where
  "sd109_wdt_settimeout timeout_invalid to data w =
     (if timeout_invalid to \<or> 255 < to then (- EINVAL, data, w)
      else (case regmap_write SD109_WDOG_TIMEOUT (wdt_reg (wdog_wait data) to) w of
              (ret, w1) \<Rightarrow> (0, data\<lparr>wdd_timeout := to\<rparr>, w1)))"

text \<open>
  \<open>sd109_wdog_init\<close>. \<open>register_ret\<close> is what the kernel's \<open>watchdog_register_device\<close>
  returns. The local \<open>tinfo\<close> is uninitialised in C and only read after a successful
  register read.
\<close>

definition sd109_wdog_init ::
  "(u32 \<Rightarrow> bool) \<Rightarrow> int \<Rightarrow> 'j word sd109_private \<Rightarrow> world
     \<Rightarrow> int \<times> 'j word sd109_private \<times> world" where
  "sd109_wdog_init timeout_invalid register_ret data w =
     (case regmap_read SD109_WDOG_TIMEOUT 0 w of
        (ret, tinfo, w1) \<Rightarrow>
          if ret < 0
          then (ret, data, dev_err ''failed to read I2C when init watchdog'' w1)
          else
            let d1 = data\<lparr>device_wdog_timeout := tinfo_timeout tinfo,
                           device_wdog_wait := tinfo_wait tinfo\<rparr>;
                (d2, u2) =
                  (if overlay_wdog_timeout d1 = - 1
                   then (d1\<lparr>wdd_timeout := device_wdog_timeout d1\<rparr>, False)
                   else (d1\<lparr>wdd_timeout := overlay_wdog_timeout d1\<rparr>, True));
                (d3, u3) =
                  (if overlay_wdog_wait d2 <s SD109_MIN_WDOG_WAIT
                   then (d2\<lparr>wdog_wait := device_wdog_wait d2\<rparr>, u2)
                   else (d2\<lparr>wdog_wait := overlay_wdog_wait d2\<rparr>, True));
                d4 = d3\<lparr>wdt_info_firmware_version := ucast (firmware_version d3),
                        wdd_nowayout := (wdd_nowayout d3 \<or> overlay_wdog_nowayout d3)\<rparr>;
                (d5, w2) =
                  (if u3
                   then (case sd109_wdt_settimeout timeout_invalid (wdd_timeout d4) d4 w1 of
                           (r, d, w') \<Rightarrow> (d, w'))
                   else (d4, w1))
            in if register_ret \<noteq> 0 then (register_ret, d5, w2)
               else (0, d5, dev_info ''Watchdog registered!'' (register_facade WATCHDOG w2)))"

subsection \<open>Real-time clock and wake alarm\<close>

text \<open>
  The three words \<open>sd109_rtc_set_time\<close> and \<open>sd109_rtc_set_alarm\<close> compute into \<open>tick\<close>
  (\<open>>>\<close> on the signed \<open>time64_t\<close> is the arithmetic shift), and the value
  \<open>sd109_rtc_read_time\<close> and \<open>sd109_rtc_read_alarm\<close> assemble from the three words read.
  The conversions between \<open>struct rtc_time\<close> and seconds (\<open>rtc_tm_to_time64\<close>,
  \<open>rtc_time64_to_tm\<close>) belong to the kernel: the functions below take and return the
  seconds.
\<close>

definition time_word0 :: "time64_t \<Rightarrow> u32" where
  "time_word0 t = ucast (t AND 0xffff)"

definition time_word1 :: "time64_t \<Rightarrow> u32" where
  "time_word1 t = ucast (signed_drop_bit 16 t AND 0xffff)"

definition time_word2 :: "time64_t \<Rightarrow> u32" where
  "time_word2 t = ucast (signed_drop_bit 32 t AND 0xffff)"

definition words_time :: "u32 \<Rightarrow> u32 \<Rightarrow> u32 \<Rightarrow> time64_t" where
  "words_time tick0 tick1 tick2 =
     (ucast (tick0 AND 0xffff) OR push_bit 16 (ucast (tick1 AND 0xffff)))
       OR push_bit 32 (ucast (tick2 AND 0xffff))"

definition sd109_rtc_set_time :: "time64_t \<Rightarrow> world \<Rightarrow> int \<times> world" where
  "sd109_rtc_set_time new_time w =
     (if 0x0000ffffffffffff <s new_time then (- EINVAL, w)
      else
        case regmap_write SD109_RTC0 (time_word0 new_time) w of (ret0, w0) \<Rightarrow>
        if ret0 \<noteq> 0
        then (ret0, dev_err ''Unable to write RTC word 0 when setting time'' w0)
        else
          case regmap_write SD109_RTC1 (time_word1 new_time) w0 of (ret1, w1) \<Rightarrow>
          if ret1 \<noteq> 0
          then (ret1, dev_err ''Unable to write RTC word 1 when setting time'' w1)
          else
            case regmap_write SD109_RTC2 (time_word2 new_time) w1 of (ret2, w2) \<Rightarrow>
            if ret2 \<noteq> 0
            then (ret2, dev_err ''Unable to write RTC word 2 when setting time'' w2)
            else (0, w2))"

text \<open>The local \<open>tick\<close> is uninitialised in C and only read after a successful read.\<close>

definition sd109_rtc_read_time :: "world \<Rightarrow> int \<times> time64_t option \<times> world" where
  "sd109_rtc_read_time w =
     (case regmap_read SD109_RTC0 0 w of (ret0, tick0, w0) \<Rightarrow>
      if ret0 \<noteq> 0
      then (ret0, None, dev_err ''Unable to read RTC word 0 when getting time'' w0)
      else
        case regmap_read SD109_RTC1 tick0 w0 of (ret1, tick1, w1) \<Rightarrow>
        if ret1 \<noteq> 0
        then (ret1, None, dev_err ''Unable to read RTC word 1 when getting time'' w1)
        else
          case regmap_read SD109_RTC2 tick1 w1 of (ret2, tick2, w2) \<Rightarrow>
          if ret2 \<noteq> 0
          then (ret2, None, dev_err ''Unable to read RTC word 2 when getting time'' w2)
          else (0, Some (words_time tick0 tick1 tick2), w2))"

text \<open>
  \<open>sd109_rtc_set_alarm\<close>: \<open>enabled\<close> and \<open>pending\<close> are the \<open>unsigned char\<close> fields of
  \<open>struct rtc_wkalrm\<close>, stored into the \<open>bool\<close> fields of the driver's data.
\<close>

definition sd109_rtc_set_alarm ::
  "time64_t \<Rightarrow> u8 \<Rightarrow> u8 \<Rightarrow> 'j word sd109_private \<Rightarrow> world
     \<Rightarrow> int \<times> 'j word sd109_private \<times> world" where
  "sd109_rtc_set_alarm alarm_time enabled pending data w =
     (let data' = data\<lparr>alarm_enabled := (enabled \<noteq> 0), alarm_pending := (pending \<noteq> 0)\<rparr>
      in
      if 0x0000ffffffffffff <s alarm_time then (- EINVAL, data', w)
      else
        case regmap_write SD109_WAKEUP0 (time_word0 alarm_time) w of (ret0, w0) \<Rightarrow>
        if ret0 \<noteq> 0
        then (ret0, data', dev_err ''Unable to write WAKEUP word 0 when setting alarm'' w0)
        else
          case regmap_write SD109_WAKEUP1 (time_word1 alarm_time) w0 of (ret1, w1) \<Rightarrow>
          if ret1 \<noteq> 0
          then (ret1, data', dev_err ''Unable to write WAKEUP word 1 when setting alarm'' w1)
          else
            case regmap_write SD109_WAKEUP2 (time_word2 alarm_time) w1 of (ret2, w2) \<Rightarrow>
            if ret2 \<noteq> 0
            then (ret2, data',
                  dev_err ''Unable to write WAKEUP word 2 when setting alarm'' w2)
            else (0, data', w2))"

text \<open>\<open>sd109_rtc_read_alarm\<close>: the result holds the alarm time, \<open>enabled\<close> and \<open>pending\<close>.\<close>

definition sd109_rtc_read_alarm ::
  "'j word sd109_private \<Rightarrow> world \<Rightarrow> int \<times> (time64_t \<times> u8 \<times> u8) option \<times> world" where
  "sd109_rtc_read_alarm data w =
     (case regmap_read SD109_WAKEUP0 0 w of (ret0, tick0, w0) \<Rightarrow>
      if ret0 \<noteq> 0
      then (ret0, None, dev_err ''Unable to read RTC word 0 when getting alarm'' w0)
      else
        case regmap_read SD109_WAKEUP1 tick0 w0 of (ret1, tick1, w1) \<Rightarrow>
        if ret1 \<noteq> 0
        then (ret1, None, dev_err ''Unable to read RTC word 1 when getting alarm'' w1)
        else
          case regmap_read SD109_WAKEUP2 tick1 w1 of (ret2, tick2, w2) \<Rightarrow>
          if ret2 \<noteq> 0
          then (ret2, None, dev_err ''Unable to read RTC word 2 when getting alarm'' w2)
          else (0,
                Some (words_time tick0 tick1 tick2,
                      of_bool (alarm_enabled data), of_bool (alarm_pending data)),
                w2))"

definition sd109_alarm_irq_enable :: "u32 \<Rightarrow> world \<Rightarrow> int \<times> world" where
  "sd109_alarm_irq_enable enabled w =
     (if enabled = 0
      then (0, snd (regmap_write SD109_WAKEUP2 0
                  (snd (regmap_write SD109_WAKEUP1 0
                     (snd (regmap_write SD109_WAKEUP0 0 w))))))
      else (0, w))"

text \<open>
  \<open>sd109_rtc_init\<close>: \<open>rtc_error\<close> is the error \<open>devm_rtc_device_register\<close> returns, if any.
\<close>

definition sd109_rtc_init :: "int option \<Rightarrow> world \<Rightarrow> int \<times> world" where
  "sd109_rtc_init rtc_error w =
     (case rtc_error of
        Some e \<Rightarrow> (e, dev_err ''failed register RTC'' w)
      | None \<Rightarrow> (0, register_facade RTC w))"

subsection \<open>Reboot and shutdown notification\<close>

text \<open>The codes of the kernel's reboot notifier chain that the switch names, and any other.\<close>

datatype reboot_code = SYS_RESTART | SYS_HALT | SYS_POWER_OFF | SYS_OTHER

definition printk_info :: "string \<Rightarrow> world \<Rightarrow> world" where
  "printk_info m w = w\<lparr>klog := klog w @ [(KERN_INFO, m)]\<rparr>"

definition sd109_notify_reboot :: "reboot_code \<Rightarrow> world \<Rightarrow> int \<times> world" where
  "sd109_notify_reboot code w =
     (case (case code of
              SYS_POWER_OFF \<Rightarrow> regmap_write SD109_COMMAND SD109_EXEC_POWEROFF w
            | SYS_RESTART \<Rightarrow> regmap_write SD109_COMMAND SD109_EXEC_REBOOT w
            | SYS_HALT \<Rightarrow> regmap_write SD109_COMMAND SD109_EXEC_HALT w
            | SYS_OTHER \<Rightarrow> (0, w)) of
        (ret, w1) \<Rightarrow>
          (NOTIFY_DONE,
           if ret \<noteq> 0 then printk_info ''Unable to write shutdown command'' w1 else w1))"

subsection \<open>Probe\<close>

text \<open>
  What the kernel hands to \<open>sd109_probe\<close> and answers to its calls: an error in place of
  the regmap, a failing allocation, the error of the hwmon registration, the device
  properties (\<open>None\<close> where \<open>device_property_read_u32\<close> finds none), the framework's
  check of a watchdog timeout, the result of \<open>watchdog_register_device\<close>, the error of
  the RTC registration.
\<close>

record platform =
  regmap_error :: "int option"
  kzalloc_fails :: bool
  hwmon_register_error :: "int option"
  prop_wdog_enabled :: bool
  prop_wdog_nowayout :: bool
  prop_wdog_timeout :: "u32 option"
  prop_wdog_wait :: "u32 option"
  prop_rtc_enabled :: bool
  wdd_timeout_invalid :: "u32 \<Rightarrow> bool"
  watchdog_register_ret :: int
  rtc_register_error :: "int option"

text \<open>The switch on the status register: the line it prints.\<close>

definition status_message :: "u32 \<Rightarrow> world \<Rightarrow> world" where
  "status_message val w =
     (if val = SD109_STATUS_POWERUP then dev_info ''start from POWER-UP'' w
      else if val = SD109_STATUS_POWEROFF then dev_info ''start from POWER-OFF'' w
      else if val = SD109_STATUS_REBOOT then dev_info ''start from REBOOT'' w
      else if val = SD109_STATUS_HALT then dev_info ''start from HALT'' w
      else if val = SD109_STATUS_WAKEUP then dev_info ''start from WAKEUP'' w
      else dev_err ''start from unknown %x'' w)"

text \<open>
  \<open>sd109_probe\<close>: the result is the return code, the driver data the static \<open>notify_data\<close>
  points to (\<open>None\<close> before the allocation), and the world. The local \<open>val\<close> is
  uninitialised in C and only read after a successful read.
\<close>

definition sd109_probe ::
  "platform \<Rightarrow> world \<Rightarrow> int \<times> ('j::len) word sd109_private option \<times> world" where
  "sd109_probe pf w =
     (case regmap_error pf of
        Some e \<Rightarrow> (e, None, w)
      | None \<Rightarrow>
        if kzalloc_fails pf then (- ENOMEM, None, w)
        else
          let data = sd109_private_zero in
          case regmap_read SD109_CHIP_ID_REG 0 w of (ret0, val0, w0) \<Rightarrow>
          if ret0 < 0 then (ret0, Some data, dev_err ''failed to read I2C chip Id'' w0)
          else if val0 \<noteq> SD109_CHIP_ID
          then (- ENODEV, Some data, dev_err ''Invalid chip id: %x'' w0)
          else
            case regmap_read SD109_CHIP_VER_REG val0 w0 of (ret1, val1, w1) \<Rightarrow>
            if ret1 < 0
            then (ret1, Some data, dev_err ''failed to read I2C firmware version'' w1)
            else
              let data1 = data\<lparr>firmware_version := ucast val1\<rparr> in
              case regmap_read SD109_STATUS val1 w1 of (ret2, val2, w2) \<Rightarrow>
              if ret2 < 0
              then (ret2, Some data1,
                    dev_err ''failed to access device when reading status'' w2)
              else
                let w3 = status_message val2 w2 in
                case hwmon_register_error pf of
                  Some e \<Rightarrow> (e, Some data1, w3)
                | None \<Rightarrow>
                  let w4 = dev_info ''HWMON registered as %s'' (register_facade HWMON w3);
                      (ret3, data3, w5) =
                        (if prop_wdog_enabled pf
                         then
                           let data2 = data1
                                 \<lparr>overlay_wdog_nowayout :=
                                    (overlay_wdog_nowayout data1 \<or> prop_wdog_nowayout pf),
                                  overlay_wdog_timeout :=
                                    (case prop_wdog_timeout pf of
                                       None \<Rightarrow> - 1 | Some v \<Rightarrow> v),
                                  overlay_wdog_wait :=
                                    (case prop_wdog_wait pf of
                                       None \<Rightarrow> - 1 | Some v \<Rightarrow> v)\<rparr>
                           in sd109_wdog_init (wdd_timeout_invalid pf)
                                (watchdog_register_ret pf) data2 w4
                         else (0, data1, w4))
                  in
                  if ret3 \<noteq> 0 then (ret3, Some data3, w5)
                  else
                    let w6 = (if prop_rtc_enabled pf
                              then snd (sd109_rtc_init (rtc_register_error pf) w5)
                              else w5)
                    in (0, Some data3, register_facade REBOOT_NOTIFIER w6))"

subsection \<open>Worlds and driver data for the examples\<close>

text \<open>
  A device whose registers all hold zero on a bus that does not fail, and the same
  device on a bus whose next transaction fails with error number 5 (EIO).
\<close>

definition quiet_world :: world where
  "quiet_world = \<lparr>regs = (\<lambda>_. 0), outcomes = [], trace = [], klog = [], registered = []\<rparr>"

definition failing_world :: world where
  "failing_world = quiet_world\<lparr>outcomes := [5]\<rparr>"

text \<open>
  A device whose watchdog register holds 0x091E (timeout 30, wait 45), and driver data
  as probe leaves it for a \<open>wdog_timeout\<close> property of 300, respectively 60, with no
  \<open>wdog_wait\<close> property.
\<close>

definition wdog_world :: world where
  "wdog_world = quiet_world\<lparr>regs := (\<lambda>_. 0)(SD109_WDOG_TIMEOUT := 0x091E)\<rparr>"

definition overlay_timeout_300 :: "64 word sd109_private" where
  "overlay_timeout_300 =
     sd109_private_zero\<lparr>overlay_wdog_timeout := 300, overlay_wdog_wait := - 1\<rparr>"

definition overlay_timeout_60 :: "64 word sd109_private" where
  "overlay_timeout_60 =
     sd109_private_zero\<lparr>overlay_wdog_timeout := 60, overlay_wdog_wait := - 1\<rparr>"

text \<open>A device whose first voltage channel reads 5000 millivolts.\<close>

definition volt_world :: world where
  "volt_world = quiet_world\<lparr>regs := (\<lambda>_. 0)(SD109_VOLTAGE_5V_BOARD := 5000)\<rparr>"

text \<open>
  A platform on which nothing fails, with the watchdog and the clock enabled and no
  overrides, and an SD109 as it answers after power-up: chip id 0xd109, firmware
  version 0x0102, status 1, watchdog register 0x091E.
\<close>

definition plain_platform :: platform where
  "plain_platform =
     \<lparr>regmap_error = None, kzalloc_fails = False, hwmon_register_error = None,
      prop_wdog_enabled = True, prop_wdog_nowayout = False, prop_wdog_timeout = None,
      prop_wdog_wait = None, prop_rtc_enabled = True,
      wdd_timeout_invalid = (\<lambda>t. 4294967 < t), watchdog_register_ret = 0,
      rtc_register_error = None\<rparr>"

definition sd109_world :: world where
  "sd109_world =
     quiet_world\<lparr>regs := (\<lambda>_. 0)(SD109_CHIP_ID_REG := 0xd109, SD109_CHIP_VER_REG := 0x0102,
                                 SD109_STATUS := 1, SD109_WDOG_TIMEOUT := 0x091E)\<rparr>"

section \<open>The time codec\<close>

lemma mask16: "(0xffff :: 'a::len word) = mask 16"
  by (simp add: mask_eq_exp_minus_1)

lemma bit_time_word0: "bit (time_word0 t) n \<longleftrightarrow> n < 16 \<and> bit t n"
  unfolding time_word0_def mask16 by (auto simp add: bit_simps)

lemma bit_time_word1: "bit (time_word1 t) n \<longleftrightarrow> n < 16 \<and> bit t (16 + n)"
  unfolding time_word1_def mask16 by (auto simp add: bit_simps bit_signed_drop_bit_iff)

lemma bit_time_word2: "bit (time_word2 t) n \<longleftrightarrow> n < 16 \<and> bit t (32 + n)"
  unfolding time_word2_def mask16 by (auto simp add: bit_simps bit_signed_drop_bit_iff)

lemma bit_words_time:
  "bit (words_time a b c) n \<longleftrightarrow>
     (n < 16 \<and> bit a n) \<or> (16 \<le> n \<and> n < 32 \<and> bit b (n - 16))
       \<or> (32 \<le> n \<and> n < 48 \<and> bit c (n - 32))"
  unfolding words_time_def mask16 by (auto simp add: bit_simps)

text \<open>Decoding the three words of any \<open>t\<close> gives the low 48 bits of \<open>t\<close>.\<close>

lemma words_time_of_time:
  "words_time (time_word0 t) (time_word1 t) (time_word2 t) = take_bit 48 t"
proof (rule bit_word_eqI)
  fix n assume "n < LENGTH(64)"
  show "bit (words_time (time_word0 t) (time_word1 t) (time_word2 t)) n
          = bit (take_bit 48 t) n"
    by (cases "n < 16"; cases "n < 32"; cases "n < 48")
       (auto simp add: bit_words_time bit_time_word0 bit_time_word1 bit_time_word2
          bit_take_bit_iff)
qed

lemma time_in_range:
  assumes "0 \<le>s (t::time64_t)" and "t \<le>s 0x0000ffffffffffff"
  shows "take_bit 48 t = t"
proof -
  from assms have p: "0 \<le> sint t" and q: "sint t < 2 ^ 48"
    by (simp_all add: word_sle_eq)
  have "uint t = take_bit 64 (sint t)" by (simp add: uint_sint)
  also have "\<dots> = sint t" using p q by (simp add: take_bit_int_eq_self)
  finally have "uint t < 2 ^ 48" using q by simp
  then have "t < 2 ^ 48" by (simp add: word_less_alt)
  then show ?thesis by (simp add: take_bit_eq_mask less_mask_eq)
qed

lemma not_too_large:
  "(t::time64_t) \<le>s 0x0000ffffffffffff \<Longrightarrow> \<not> 0x0000ffffffffffff <s t"
  by (simp add: word_sle_eq word_sless_alt)

lemma time_word0_words: "time_word0 (words_time a b c) = take_bit 16 a"
  by (rule bit_word_eqI) (auto simp add: bit_words_time bit_time_word0 bit_take_bit_iff)

lemma time_word1_words: "time_word1 (words_time a b c) = take_bit 16 b"
  by (rule bit_word_eqI) (auto simp add: bit_words_time bit_time_word1 bit_take_bit_iff)

lemma time_word2_words: "time_word2 (words_time a b c) = take_bit 16 c"
  by (rule bit_word_eqI) (auto simp add: bit_words_time bit_time_word2 bit_take_bit_iff)

lemma uint_take_bit_48: "uint (take_bit 48 (t::time64_t)) < 2 ^ 48"
  by (metis take_bit_int_less_exp unsigned_take_bit_eq)

lemma sint_take_bit_48: "sint (take_bit 48 (t::time64_t)) = uint (take_bit 48 t)"
proof -
  have "uint (take_bit 48 t) < 2 ^ 63"
    using uint_take_bit_48 [of t] by simp
  moreover have "- (2 ^ 63) \<le> uint (take_bit 48 t)"
    by (rule order_trans [of _ 0]) simp_all
  ultimately show ?thesis
    by (simp add: sint_uint signed_take_bit_int_eq_self)
qed

lemma words_time_in_range:
  "0 \<le>s words_time a b c \<and> words_time a b c \<le>s 0x0000ffffffffffff"
proof -
  have e: "take_bit 48 (words_time a b c) = words_time a b c"
    by (rule bit_word_eqI) (auto simp add: bit_words_time bit_take_bit_iff)
  have "uint (take_bit 48 (words_time a b c)) < 2 ^ 48"
    by (rule uint_take_bit_48)
  with sint_take_bit_48 [of "words_time a b c"] e show ?thesis
    by (simp add: word_sle_eq)
qed

lemma le_ffff_take_bit:
  assumes "(a::u32) \<le> 0xffff"
  shows "take_bit 16 a = a"
proof -
  from assms have "uint a \<le> 65535" by (simp add: word_le_def)
  then have "uint a < 2 ^ 16" by simp
  then have "a < 2 ^ 16" by (simp add: word_less_alt)
  then have "a AND mask 16 = a" by (rule less_mask_eq)
  then show ?thesis by (simp add: take_bit_eq_mask)
qed

lemma take_bit_le_ffff: "take_bit 16 (a::u32) \<le> 0xffff"
proof -
  have "uint (take_bit 16 a) < 2 ^ 16"
    by (metis take_bit_int_less_exp unsigned_take_bit_eq)
  then show ?thesis by (simp add: word_le_def)
qed

lemma time_words_le_ffff:
  "time_word0 t \<le> 0xffff" "time_word1 t \<le> 0xffff" "time_word2 t \<le> 0xffff"
proof -
  have "time_word0 t = take_bit 16 (time_word0 t)"
    by (rule bit_word_eqI) (auto simp add: bit_time_word0 bit_take_bit_iff)
  then show "time_word0 t \<le> 0xffff" by (metis take_bit_le_ffff)
  have "time_word1 t = take_bit 16 (time_word1 t)"
    by (rule bit_word_eqI) (auto simp add: bit_time_word1 bit_take_bit_iff)
  then show "time_word1 t \<le> 0xffff" by (metis take_bit_le_ffff)
  have "time_word2 t = take_bit 16 (time_word2 t)"
    by (rule bit_word_eqI) (auto simp add: bit_time_word2 bit_take_bit_iff)
  then show "time_word2 t \<le> 0xffff" by (metis take_bit_le_ffff)
qed

lemma time_codec_bij:
  "bij_betw (\<lambda>t. (time_word0 t, time_word1 t, time_word2 t))
     {t. 0 \<le>s t \<and> t \<le>s 0x0000ffffffffffff}
     {(a, b, c). a \<le> 0xffff \<and> b \<le> 0xffff \<and> c \<le> 0xffff}"
proof (rule bij_betw_byWitness [where f' = "\<lambda>(a, b, c). words_time a b c"])
  show "\<forall>t\<in>{t. 0 \<le>s t \<and> t \<le>s 0x0000ffffffffffff}.
          (case (time_word0 t, time_word1 t, time_word2 t) of
             (a, b, c) \<Rightarrow> words_time a b c) = t"
    by (simp add: words_time_of_time time_in_range)
  show "\<forall>x\<in>{(a, b, c). a \<le> 0xffff \<and> b \<le> 0xffff \<and> c \<le> 0xffff}.
          (\<lambda>t. (time_word0 t, time_word1 t, time_word2 t))
             (case x of (a, b, c) \<Rightarrow> words_time a b c) = x"
    by (auto simp add: time_word0_words time_word1_words time_word2_words le_ffff_take_bit)
  show "(\<lambda>t. (time_word0 t, time_word1 t, time_word2 t))
            ` {t. 0 \<le>s t \<and> t \<le>s 0x0000ffffffffffff}
          \<subseteq> {(a, b, c). a \<le> 0xffff \<and> b \<le> 0xffff \<and> c \<le> 0xffff}"
    using time_words_le_ffff by auto
  show "(\<lambda>(a, b, c). words_time a b c)
            ` {(a, b, c). a \<le> 0xffff \<and> b \<le> 0xffff \<and> c \<le> 0xffff}
          \<subseteq> {t. 0 \<le>s t \<and> t \<le>s 0x0000ffffffffffff}"
    using words_time_in_range by auto
qed

text \<open>On a bus that does not fail, a register holds what was last written to it.\<close>

lemma regmap_write_ok:
  "outcomes w = [] \<Longrightarrow>
   regmap_write reg v w =
     (0, w\<lparr>regs := (regs w)(reg := ucast v), outcomes := [],
            trace := trace w @ [RegWrite reg v]\<rparr>)"
  by (simp add: regmap_write_def next_ret_def next_fails_def)

lemma regmap_read_ok:
  "outcomes w = [] \<Longrightarrow>
   regmap_read reg old w =
     (0, ucast (regs w reg), w\<lparr>outcomes := [], trace := trace w @ [RegRead reg]\<rparr>)"
  by (simp add: regmap_read_def next_ret_def next_fails_def)

lemma words_time_ucast:
  "words_time (ucast (ucast a :: u16)) (ucast (ucast b :: u16)) (ucast (ucast c :: u16))
     = words_time a b c"
  by (rule bit_word_eqI) (auto simp add: bit_words_time bit_simps)

lemma set_then_read_time:
  assumes "0 \<le>s t" and "t \<le>s 0x0000ffffffffffff" and "outcomes w = []"
  shows "fst (sd109_rtc_set_time t w) = 0 \<and>
         fst (snd (sd109_rtc_read_time (snd (sd109_rtc_set_time t w)))) = Some t"
  using assms(3) time_in_range [OF assms(1,2)] not_too_large [OF assms(2)]
  by (simp add: sd109_rtc_set_time_def sd109_rtc_read_time_def regmap_write_ok
      regmap_read_ok words_time_ucast words_time_of_time)

lemma set_then_read_alarm:
  assumes "0 \<le>s t" and "t \<le>s 0x0000ffffffffffff" and "outcomes w = []"
  shows "fst (sd109_rtc_set_alarm t en pe data w) = 0 \<and>
         (case sd109_rtc_set_alarm t en pe data w of
            (r, data', w') \<Rightarrow>
              fst (snd (sd109_rtc_read_alarm data' w'))
                = Some (t, of_bool (en \<noteq> 0), of_bool (pe \<noteq> 0)))"
  using assms(3) time_in_range [OF assms(1,2)] not_too_large [OF assms(2)]
  by (simp add: sd109_rtc_set_alarm_def sd109_rtc_read_alarm_def regmap_write_ok
      regmap_read_ok words_time_ucast words_time_of_time Let_def)

text \<open>
  Claim C1. For every time value \<open>t\<close> from 0 to \<open>2^48 - 1\<close>, the three sixteen-bit words
  that \<open>sd109_rtc_set_time\<close> and \<open>sd109_rtc_set_alarm\<close> compute from \<open>t\<close>, least
  significant first, decode to \<open>t\<close> again the way \<open>sd109_rtc_read_time\<close> and
  \<open>sd109_rtc_read_alarm\<close> decode them; encoding is a bijection from that range onto the
  triples of sixteen-bit words; and on a bus that does not fail, reading the clock (the
  alarm) after setting it to \<open>t\<close> returns \<open>t\<close>.
\<close>

theorem time_codec_roundtrip:
  "(0 \<le>s t \<and> t \<le>s 0x0000ffffffffffff \<longrightarrow>
      words_time (time_word0 t) (time_word1 t) (time_word2 t) = t)
   \<and> bij_betw (\<lambda>t. (time_word0 t, time_word1 t, time_word2 t))
        {t. 0 \<le>s t \<and> t \<le>s 0x0000ffffffffffff}
        {(a, b, c). a \<le> 0xffff \<and> b \<le> 0xffff \<and> c \<le> 0xffff}
   \<and> (0 \<le>s t \<and> t \<le>s 0x0000ffffffffffff \<and> outcomes w = [] \<longrightarrow>
        fst (sd109_rtc_set_time t w) = 0 \<and>
        fst (snd (sd109_rtc_read_time (snd (sd109_rtc_set_time t w)))) = Some t)
   \<and> (0 \<le>s t \<and> t \<le>s 0x0000ffffffffffff \<and> outcomes w = [] \<longrightarrow>
        fst (sd109_rtc_set_alarm t en pe data w) = 0 \<and>
        (case sd109_rtc_set_alarm t en pe data w of
           (r, data', w') \<Rightarrow>
             fst (snd (sd109_rtc_read_alarm data' w'))
               = Some (t, of_bool (en \<noteq> 0), of_bool (pe \<noteq> 0))))"
  using time_codec_bij set_then_read_time [of t w] set_then_read_alarm [of t w en pe data]
  by (simp add: words_time_of_time time_in_range)

text \<open>
  The spec's example: 1700000000 is the words 0xF100, 0x6553, 0x0000, and comes back
  from them, from the clock registers and from the alarm registers.
\<close>

theorem time_codec_roundtrip_witness:
  "0 \<le>s (1700000000 :: time64_t) \<and> (1700000000 :: time64_t) \<le>s 0x0000ffffffffffff
   \<and> outcomes quiet_world = []
   \<and> time_word0 1700000000 = 0xF100 \<and> time_word1 1700000000 = 0x6553
   \<and> time_word2 1700000000 = 0x0000
   \<and> words_time (time_word0 1700000000) (time_word1 1700000000) (time_word2 1700000000)
       = 1700000000
   \<and> fst (snd (sd109_rtc_read_time (snd (sd109_rtc_set_time 1700000000 quiet_world))))
       = Some 1700000000
   \<and> (case sd109_rtc_set_alarm 1700000000 1 0 (sd109_private_zero :: 64 word sd109_private)
             quiet_world of
         (r, data', w') \<Rightarrow>
           fst (snd (sd109_rtc_read_alarm data' w')) = Some (1700000000, 1, 0))"
proof -
  have r: "0 \<le>s (1700000000 :: time64_t) \<and> (1700000000 :: time64_t) \<le>s 0x0000ffffffffffff"
    by (simp add: word_sle_eq)
  have q: "outcomes quiet_world = []"
    by (simp add: quiet_world_def)
  have e: "time_word0 1700000000 = 0xF100 \<and> time_word1 1700000000 = 0x6553
             \<and> time_word2 1700000000 = 0x0000"
    by (simp add: time_word0_def time_word1_def time_word2_def)
  from r q e
    time_codec_roundtrip [where t = 1700000000 and w = quiet_world and en = 1 and pe = 0
      and data = "sd109_private_zero :: 64 word sd109_private"]
  show ?thesis by simp
qed

section \<open>Rejecting times beyond 48 bits\<close>

text \<open>
  Claim C5. For every time value \<open>t\<close> greater than \<open>2^48 - 1\<close>, \<open>sd109_rtc_set_time\<close>
  returns \<open>-EINVAL\<close> and leaves the world as it was: no register write is issued, none
  of the three words is stored.
\<close>

theorem set_time_rejects_large:
  "0x0000ffffffffffff <s t \<Longrightarrow> sd109_rtc_set_time t w = (- EINVAL, w)"
  by (simp add: sd109_rtc_set_time_def)

theorem set_time_rejects_large_witness:
  "0x0000ffffffffffff <s (0x1000000000000 :: time64_t)
   \<and> sd109_rtc_set_time 0x1000000000000 quiet_world = (- EINVAL, quiet_world)
   \<and> trace (snd (sd109_rtc_set_time 0x1000000000000 quiet_world)) = []"
proof -
  have h: "0x0000ffffffffffff <s (0x1000000000000 :: time64_t)"
    by (simp add: word_sless_alt)
  from h set_time_rejects_large [OF h, of quiet_world] show ?thesis
    by (simp add: quiet_world_def)
qed

text \<open>
  Claim C6. \<open>sd109_rtc_set_alarm\<close> stores the \<open>enabled\<close> and \<open>pending\<close> flags in the
  driver's data on every call, whatever the time and whatever the bus does; when the
  time is greater than \<open>2^48 - 1\<close> the call then returns \<open>-EINVAL\<close> with the world as it
  was, so before any of the three alarm words is written.
\<close>

theorem set_alarm_stores_flags:
  "fst (snd (sd109_rtc_set_alarm t en pe data w))
     = data\<lparr>alarm_enabled := (en \<noteq> 0), alarm_pending := (pe \<noteq> 0)\<rparr>
   \<and> (0x0000ffffffffffff <s t \<longrightarrow>
        fst (sd109_rtc_set_alarm t en pe data w) = - EINVAL
        \<and> snd (snd (sd109_rtc_set_alarm t en pe data w)) = w)"
  by (simp add: sd109_rtc_set_alarm_def Let_def split: prod.splits)

theorem set_alarm_stores_flags_witness:
  "0x0000ffffffffffff <s (0x1000000000000 :: time64_t)
   \<and> alarm_enabled (fst (snd (sd109_rtc_set_alarm 0x1000000000000 1 1
         (sd109_private_zero :: 64 word sd109_private) quiet_world)))
   \<and> alarm_pending (fst (snd (sd109_rtc_set_alarm 0x1000000000000 1 1
         (sd109_private_zero :: 64 word sd109_private) quiet_world)))
   \<and> fst (sd109_rtc_set_alarm 0x1000000000000 1 1
         (sd109_private_zero :: 64 word sd109_private) quiet_world) = - EINVAL
   \<and> snd (snd (sd109_rtc_set_alarm 0x1000000000000 1 1
         (sd109_private_zero :: 64 word sd109_private) quiet_world)) = quiet_world"
proof -
  have h: "0x0000ffffffffffff <s (0x1000000000000 :: time64_t)"
    by (simp add: word_sless_alt)
  from h
    set_alarm_stores_flags [where t = "0x1000000000000" and en = 1 and pe = 1
      and data = "sd109_private_zero :: 64 word sd109_private" and w = quiet_world]
  show ?thesis by simp
qed

section \<open>Shutdown notification\<close>

text \<open>
  Claim C10. On \<open>SYS_POWER_OFF\<close> the notifier issues exactly one bus transaction, the
  write of \<open>SD109_EXEC_POWEROFF\<close> (3) to the command register; if that write fails it
  prints one line and nothing else; it returns \<open>NOTIFY_DONE\<close> whether the write
  succeeded or not; and it registers nothing.
\<close>

theorem poweroff_notify:
  "fst (sd109_notify_reboot SYS_POWER_OFF w) = NOTIFY_DONE
   \<and> trace (snd (sd109_notify_reboot SYS_POWER_OFF w))
       = trace w @ [RegWrite SD109_COMMAND SD109_EXEC_POWEROFF]
   \<and> klog (snd (sd109_notify_reboot SYS_POWER_OFF w))
       = klog w @ (if next_fails w then [(KERN_INFO, ''Unable to write shutdown command'')]
                   else [])
   \<and> registered (snd (sd109_notify_reboot SYS_POWER_OFF w)) = registered w"
  by (simp add: sd109_notify_reboot_def regmap_write_def printk_info_def next_fails_def
      next_ret_def split: list.splits)

theorem poweroff_notify_witness:
  "next_fails failing_world
   \<and> fst (sd109_notify_reboot SYS_POWER_OFF failing_world) = NOTIFY_DONE
   \<and> trace (snd (sd109_notify_reboot SYS_POWER_OFF failing_world))
       = [RegWrite SD109_COMMAND SD109_EXEC_POWEROFF]
   \<and> klog (snd (sd109_notify_reboot SYS_POWER_OFF failing_world))
       = [(KERN_INFO, ''Unable to write shutdown command'')]"
  using poweroff_notify [of failing_world]
  by (simp add: failing_world_def quiet_world_def next_fails_def)

section \<open>The watchdog register\<close>

lemma mask8: "(0xFF :: 'a::len word) = mask 8"
  by (simp add: mask_eq_exp_minus_1)

lemma mask8_high: "(0xFF00 :: u32) = push_bit 8 (mask 8)"
  by (simp add: mask_eq_exp_minus_1)

lemma bit_wdt_reg:
  "bit (wdt_reg wait to) n \<longleftrightarrow>
     (8 \<le> n \<and> n < 16 \<and> bit (int_div wait 5) (n - 8)) \<or> (n < 8 \<and> bit to n)"
  unfolding wdt_reg_def mask8 mask8_high by (auto simp add: bit_simps)

lemma wdt_reg_low: "wdt_reg wait to AND 0xFF = take_bit 8 to"
  unfolding mask8 by (rule bit_word_eqI) (auto simp add: bit_wdt_reg bit_simps)

lemma wdt_reg_high: "drop_bit 8 (wdt_reg wait to) = int_div wait 5 AND 0xFF"
  unfolding mask8 by (rule bit_word_eqI) (auto simp add: bit_wdt_reg bit_simps)

lemma le_ff_take_bit:
  assumes "(a::u32) \<le> 255"
  shows "take_bit 8 a = a"
proof -
  from assms have "uint a \<le> 255" by (simp add: word_le_def)
  then have "uint a < 2 ^ 8" by simp
  then have "a < 2 ^ 8" by (simp add: word_less_alt)
  then have "a AND mask 8 = a" by (rule less_mask_eq)
  then show ?thesis by (simp add: take_bit_eq_mask)
qed

text \<open>While \<open>wait / 5\<close> fits a byte, the high byte is \<open>wait / 5\<close> itself.\<close>

lemma int_div_small:
  assumes "0 \<le>s wait" and "wait <s 1280"
  shows "uint (int_div wait 5 AND 0xFF) = sint wait div 5"
proof -
  from assms have p: "0 \<le> sint wait" and q: "sint wait < 1280"
    by (simp_all add: word_sle_eq word_sless_alt)
  then have d: "sint wait sdiv 5 = sint wait div 5"
    by (cases "sint wait = 0") (simp_all add: signed_divide_int_def sgn_if)
  have b: "0 \<le> sint wait div 5" "sint wait div 5 < 256"
    using p q by simp_all
  have "uint (int_div wait 5 AND 0xFF) = take_bit 8 (take_bit 32 (sint wait div 5))"
    unfolding mask8 int_div_def
    by (simp add: d uint_word_of_int_eq unsigned_take_bit_eq flip: take_bit_eq_mask)
  also have "\<dots> = sint wait div 5"
    using b by (simp add: take_bit_int_eq_self)
  finally show ?thesis .
qed

lemma next_ret_ok: "\<not> next_fails w \<Longrightarrow> next_ret w = 0"
  by (simp add: next_fails_def next_ret_def split: list.splits)

lemma next_ret_fail: "next_fails w \<Longrightarrow> next_ret w < 0"
  by (simp add: next_fails_def next_ret_def split: list.splits)

text \<open>
  Claim C7. Packing timeout 30 and wait 45 the way \<open>sd109_wdt_settimeout\<close> does gives
  0x091E, and \<open>sd109_wdog_init\<close> takes timeout 30 and wait 45 out of 0x091E; so
  \<open>sd109_wdt_settimeout\<close> with wait 45 and timeout 30 writes 0x091E to the watchdog
  register, and \<open>sd109_wdog_init\<close> on a device holding 0x091E there records 30 and 45 as
  the device's values.
\<close>

theorem wdog_bitfield_example:
  "wdt_reg 45 30 = 0x091E \<and> tinfo_timeout 0x091E = 30 \<and> tinfo_wait 0x091E = 45
   \<and> trace (snd (snd (sd109_wdt_settimeout (\<lambda>t. False) 30 (data\<lparr>wdog_wait := 45\<rparr>) w)))
       = trace w @ [RegWrite SD109_WDOG_TIMEOUT 0x091E]
   \<and> device_wdog_timeout
        (fst (snd (sd109_wdog_init timeout_invalid register_ret data wdog_world))) = 30
   \<and> device_wdog_wait
        (fst (snd (sd109_wdog_init timeout_invalid register_ret data wdog_world))) = 45"
proof -
  have c: "wdt_reg 45 30 = 0x091E \<and> tinfo_timeout 0x091E = 30 \<and> tinfo_wait 0x091E = 45"
    by (simp add: wdt_reg_def tinfo_timeout_def tinfo_wait_def int_div_def
        signed_divide_int_def)
  have s: "trace (snd (snd (sd109_wdt_settimeout (\<lambda>t. False) 30 (data\<lparr>wdog_wait := 45\<rparr>) w)))
             = trace w @ [RegWrite SD109_WDOG_TIMEOUT 0x091E]"
    using c by (simp add: sd109_wdt_settimeout_def regmap_write_def split: prod.splits)
  have "\<not> next_fails wdog_world"
    by (simp add: wdog_world_def quiet_world_def next_fails_def)
  then have i: "device_wdog_timeout
        (fst (snd (sd109_wdog_init timeout_invalid register_ret data wdog_world))) = 30
      \<and> device_wdog_wait
        (fst (snd (sd109_wdog_init timeout_invalid register_ret data wdog_world))) = 45"
    using c
    by (simp add: sd109_wdog_init_def sd109_wdt_settimeout_def regmap_read_def next_ret_ok
        wdog_world_def Let_def split: prod.splits)
  from c s i show ?thesis by simp
qed

text \<open>
  Claim C3, as amended. For a timeout of at most 255 that the framework's check accepts,
  \<open>sd109_wdt_settimeout\<close> issues one transaction, the write of the combined value to the
  watchdog register: low byte the timeout, high byte the low eight bits of wait / 5
  (wait / 5 itself whenever that fits a byte, that is for a wait from 0 to 1279). The
  register holds that value if the write succeeds, and the timeout is recorded as
  \<open>wdd.timeout\<close> (the function records it and returns 0 also when the write fails). For
  a timeout above 255 it returns \<open>-EINVAL\<close> with data and world as they were.
\<close>

theorem settimeout_writes_or_rejects:
  "(\<not> timeout_invalid to \<and> to \<le> 255 \<longrightarrow>
      fst (sd109_wdt_settimeout timeout_invalid to data w) = 0
      \<and> fst (snd (sd109_wdt_settimeout timeout_invalid to data w))
          = data\<lparr>wdd_timeout := to\<rparr>
      \<and> trace (snd (snd (sd109_wdt_settimeout timeout_invalid to data w)))
          = trace w @ [RegWrite SD109_WDOG_TIMEOUT (wdt_reg (wdog_wait data) to)]
      \<and> wdt_reg (wdog_wait data) to AND 0xFF = to
      \<and> drop_bit 8 (wdt_reg (wdog_wait data) to) = int_div (wdog_wait data) 5 AND 0xFF
      \<and> (0 \<le>s wdog_wait data \<and> wdog_wait data <s 1280 \<longrightarrow>
            uint (drop_bit 8 (wdt_reg (wdog_wait data) to)) = sint (wdog_wait data) div 5)
      \<and> (\<not> next_fails w \<longrightarrow>
            regs (snd (snd (sd109_wdt_settimeout timeout_invalid to data w)))
                SD109_WDOG_TIMEOUT
              = ucast (wdt_reg (wdog_wait data) to)))
   \<and> (255 < to \<longrightarrow>
        sd109_wdt_settimeout timeout_invalid to data w = (- EINVAL, data, w))"
proof -
  have rej: "255 < to \<longrightarrow>
      sd109_wdt_settimeout timeout_invalid to data w = (- EINVAL, data, w)"
    by (simp add: sd109_wdt_settimeout_def)
  have acc: "sd109_wdt_settimeout timeout_invalid to data w
        = (0, data\<lparr>wdd_timeout := to\<rparr>,
           snd (regmap_write SD109_WDOG_TIMEOUT (wdt_reg (wdog_wait data) to) w))"
    if "\<not> timeout_invalid to" "to \<le> 255"
    using that
    by (simp add: sd109_wdt_settimeout_def not_less [symmetric] split: prod.splits)
  have low: "wdt_reg (wdog_wait data) to AND 0xFF = to" if "to \<le> 255"
    using that by (simp add: wdt_reg_low le_ff_take_bit)
  show ?thesis
    using rej acc low
    by (simp add: wdt_reg_high int_div_small regmap_write_def)
qed

theorem settimeout_writes_or_rejects_witness:
  "\<not> 4294967 < (30 :: u32) \<and> (30 :: u32) \<le> 255 \<and> \<not> next_fails quiet_world
   \<and> trace (snd (snd (sd109_wdt_settimeout (\<lambda>t. 4294967 < t) 30
        ((sd109_private_zero :: 64 word sd109_private)\<lparr>wdog_wait := 45\<rparr>) quiet_world)))
       = [RegWrite SD109_WDOG_TIMEOUT 0x091E]
   \<and> regs (snd (snd (sd109_wdt_settimeout (\<lambda>t. 4294967 < t) 30
        ((sd109_private_zero :: 64 word sd109_private)\<lparr>wdog_wait := 45\<rparr>) quiet_world)))
        SD109_WDOG_TIMEOUT = 0x091E
   \<and> wdd_timeout (fst (snd (sd109_wdt_settimeout (\<lambda>t. 4294967 < t) 30
        ((sd109_private_zero :: 64 word sd109_private)\<lparr>wdog_wait := 45\<rparr>) quiet_world)))
       = 30
   \<and> (255 :: u32) < 256
   \<and> sd109_wdt_settimeout (\<lambda>t. 4294967 < t) 256
        (sd109_private_zero :: 64 word sd109_private) quiet_world
       = (- EINVAL, sd109_private_zero, quiet_world)"
proof -
  have c: "wdt_reg 45 30 = 0x091E"
    by (simp add: wdt_reg_def int_div_def signed_divide_int_def)
  have q: "\<not> next_fails quiet_world" "trace quiet_world = []"
    by (simp_all add: quiet_world_def next_fails_def)
  from c q
    settimeout_writes_or_rejects [where timeout_invalid = "\<lambda>t. 4294967 < t" and to = 30
      and data = "(sd109_private_zero :: 64 word sd109_private)\<lparr>wdog_wait := 45\<rparr>"
      and w = quiet_world]
    settimeout_writes_or_rejects [where timeout_invalid = "\<lambda>t. 4294967 < t" and to = 256
      and data = "sd109_private_zero :: 64 word sd109_private" and w = quiet_world]
  show ?thesis by simp
qed

text \<open>
  The claim as it was stated fails: the high byte is not wait / 5 once wait / 5 exceeds
  255. With a wait of 2000 seconds and a timeout of 30 the value written is 0x901E,
  whose high byte is 144, while 2000 / 5 is 400. Such a wait is one the driver adopts:
  \<open>sd109_wdog_init\<close> with a \<open>wdog_wait\<close> override of 2000 and a \<open>wdog_timeout\<close> override of
  30 takes 2000 as the wait and writes the same 0x901E.
\<close>

theorem settimeout_high_byte_counterexample:
  "\<not> 4294967 < (30 :: u32) \<and> (30 :: u32) \<le> 255
   \<and> trace (snd (snd (sd109_wdt_settimeout (\<lambda>t. 4294967 < t) 30
        ((sd109_private_zero :: 64 word sd109_private)\<lparr>wdog_wait := 2000\<rparr>) quiet_world)))
       = [RegWrite SD109_WDOG_TIMEOUT 0x901E]
   \<and> drop_bit 8 (0x901E :: u32) = 144
   \<and> int_div 2000 5 = 400
   \<and> wdog_wait (fst (snd (sd109_wdog_init (\<lambda>t. 4294967 < t) 0
        ((sd109_private_zero :: 64 word sd109_private)
           \<lparr>overlay_wdog_timeout := 30, overlay_wdog_wait := 2000\<rparr>) wdog_world))) = 2000
   \<and> trace (snd (snd (sd109_wdog_init (\<lambda>t. 4294967 < t) 0
        ((sd109_private_zero :: 64 word sd109_private)
           \<lparr>overlay_wdog_timeout := 30, overlay_wdog_wait := 2000\<rparr>) wdog_world)))
       = [RegRead SD109_WDOG_TIMEOUT, RegWrite SD109_WDOG_TIMEOUT 0x901E]"
proof -
  have c: "wdt_reg 2000 30 = 0x901E" "int_div 2000 5 = 400"
    by (simp_all add: wdt_reg_def int_div_def signed_divide_int_def)
  have d: "drop_bit 8 (0x901E :: u32) = 144"
    by simp
  have s: "trace (snd (snd (sd109_wdt_settimeout (\<lambda>t. 4294967 < t) 30
        ((sd109_private_zero :: 64 word sd109_private)\<lparr>wdog_wait := 2000\<rparr>) quiet_world)))
       = [RegWrite SD109_WDOG_TIMEOUT 0x901E]"
    using c
    by (simp add: sd109_wdt_settimeout_def regmap_write_def quiet_world_def
        split: prod.splits)
  have q: "\<not> next_fails wdog_world"
    by (simp add: wdog_world_def quiet_world_def next_fails_def)
  have i: "wdog_wait (fst (snd (sd109_wdog_init (\<lambda>t. 4294967 < t) 0
        ((sd109_private_zero :: 64 word sd109_private)
           \<lparr>overlay_wdog_timeout := 30, overlay_wdog_wait := 2000\<rparr>) wdog_world))) = 2000
      \<and> trace (snd (snd (sd109_wdog_init (\<lambda>t. 4294967 < t) 0
        ((sd109_private_zero :: 64 word sd109_private)
           \<lparr>overlay_wdog_timeout := 30, overlay_wdog_wait := 2000\<rparr>) wdog_world)))
       = [RegRead SD109_WDOG_TIMEOUT, RegWrite SD109_WDOG_TIMEOUT 0x901E]"
    using c q
    by (simp add: sd109_wdog_init_def sd109_wdt_settimeout_def regmap_read_def
        regmap_write_def next_ret_ok wdog_world_def quiet_world_def Let_def
        dev_info_def register_facade_def word_sless_alt split: prod.splits)
  from c d s i show ?thesis by simp
qed

section \<open>Watchdog initialisation\<close>

text \<open>What \<open>sd109_wdog_init\<close> computes once its register read has succeeded.\<close>

lemma wdog_init_ok:
  assumes "\<not> next_fails w"
  shows "sd109_wdog_init timeout_invalid register_ret data w =
    (let tinfo = ucast (regs w SD109_WDOG_TIMEOUT);
         w1 = w\<lparr>outcomes := tl (outcomes w),
                trace := trace w @ [RegRead SD109_WDOG_TIMEOUT]\<rparr>;
         to = (if overlay_wdog_timeout data = - 1 then tinfo_timeout tinfo
               else overlay_wdog_timeout data);
         wait = (if overlay_wdog_wait data <s SD109_MIN_WDOG_WAIT then tinfo_wait tinfo
                 else overlay_wdog_wait data);
         u = (overlay_wdog_timeout data \<noteq> - 1
                \<or> \<not> overlay_wdog_wait data <s SD109_MIN_WDOG_WAIT);
         d4 = data\<lparr>device_wdog_timeout := tinfo_timeout tinfo,
                  device_wdog_wait := tinfo_wait tinfo,
                  wdd_timeout := to, wdog_wait := wait,
                  wdt_info_firmware_version := ucast (firmware_version data),
                  wdd_nowayout := (wdd_nowayout data \<or> overlay_wdog_nowayout data)\<rparr>;
         w2 = (if u \<and> \<not> (timeout_invalid to \<or> 255 < to)
               then snd (regmap_write SD109_WDOG_TIMEOUT (wdt_reg wait to) w1) else w1)
     in if register_ret \<noteq> 0 then (register_ret, d4, w2)
        else (0, d4, dev_info ''Watchdog registered!'' (register_facade WATCHDOG w2)))"
  using assms
  by (simp add: sd109_wdog_init_def sd109_wdt_settimeout_def regmap_read_def next_ret_ok
      Let_def split: prod.splits)

lemma sle_iff_not_sless: "(b :: 'a::len word) \<le>s a \<longleftrightarrow> \<not> a <s b"
  by (simp add: word_sle_eq word_sless_alt not_less)

text \<open>
  Claim C4, as amended. When \<open>sd109_wdog_init\<close> has read the watchdog register, the
  adopted timeout is the override exactly when the override is not -1, otherwise the
  device's value; the adopted wait is the override exactly when the override is at
  least 45, otherwise the device's value; and the combined value of the two is written
  back exactly when at least one override won and the adopted timeout is one that
  \<open>sd109_wdt_settimeout\<close> accepts (the framework's check passes and it is at most 255).
\<close>

theorem wdog_init_reconciliation:
  "\<not> next_fails w \<Longrightarrow>
   (case sd109_wdog_init timeout_invalid register_ret data w of
      (ret, data', w') \<Rightarrow>
        device_wdog_timeout data' = tinfo_timeout (ucast (regs w SD109_WDOG_TIMEOUT))
        \<and> device_wdog_wait data' = tinfo_wait (ucast (regs w SD109_WDOG_TIMEOUT))
        \<and> wdd_timeout data'
            = (if overlay_wdog_timeout data \<noteq> - 1 then overlay_wdog_timeout data
               else device_wdog_timeout data')
        \<and> wdog_wait data'
            = (if SD109_MIN_WDOG_WAIT \<le>s overlay_wdog_wait data then overlay_wdog_wait data
               else device_wdog_wait data')
        \<and> trace w'
            = trace w @ [RegRead SD109_WDOG_TIMEOUT] @
              (if (overlay_wdog_timeout data \<noteq> - 1
                     \<or> SD109_MIN_WDOG_WAIT \<le>s overlay_wdog_wait data)
                  \<and> \<not> timeout_invalid (wdd_timeout data') \<and> wdd_timeout data' \<le> 255
               then [RegWrite SD109_WDOG_TIMEOUT
                       (wdt_reg (wdog_wait data') (wdd_timeout data'))]
               else []))"
  by (cases "overlay_wdog_timeout data = - 1"; cases "overlay_wdog_wait data <s 45";
      cases "register_ret = 0")
     (simp_all add: wdog_init_ok Let_def sle_iff_not_sless not_less regmap_write_def
        dev_info_def register_facade_def)

text \<open>
  An override of 60 seconds with no wait override, on a device holding timeout 30 and
  wait 45: 60 and 45 are adopted and 0x093C is written back.
\<close>

theorem wdog_init_reconciliation_witness:
  "\<not> next_fails wdog_world
   \<and> (case sd109_wdog_init (\<lambda>t. 4294967 < t) 0 overlay_timeout_60 wdog_world of
         (ret, data', w') \<Rightarrow>
           wdd_timeout data' = 60 \<and> wdog_wait data' = 45
           \<and> trace w' = [RegRead SD109_WDOG_TIMEOUT, RegWrite SD109_WDOG_TIMEOUT 0x093C])"
proof -
  have q: "\<not> next_fails wdog_world"
    by (simp add: wdog_world_def quiet_world_def next_fails_def)
  have c: "tinfo_timeout 0x091E = 30" "tinfo_wait 0x091E = 45" "wdt_reg 45 60 = 0x093C"
    by (simp_all add: wdt_reg_def tinfo_timeout_def tinfo_wait_def int_div_def
        signed_divide_int_def)
  have d: "overlay_wdog_timeout overlay_timeout_60 = 60"
    "overlay_wdog_wait overlay_timeout_60 = - 1"
    by (simp_all add: overlay_timeout_60_def)
  have r: "regs wdog_world SD109_WDOG_TIMEOUT = 0x091E" "trace wdog_world = []"
    by (simp_all add: wdog_world_def quiet_world_def)
  from wdog_init_reconciliation [OF q, where timeout_invalid = "\<lambda>t. 4294967 < t"
      and register_ret = 0 and data = overlay_timeout_60] q c d r
  show ?thesis
    by (simp add: sle_iff_not_sless word_sless_alt split: prod.splits)
qed

text \<open>
  The claim as it was stated fails: with an override of 300 seconds the override wins
  (300 is adopted as \<open>wdd.timeout\<close>), yet \<open>sd109_wdt_settimeout\<close> rejects 300 and nothing is
  written back; the only bus transaction is the initial read.
\<close>

theorem wdog_init_writeback_counterexample:
  "overlay_wdog_timeout overlay_timeout_300 \<noteq> - 1
   \<and> wdd_timeout (fst (snd (sd109_wdog_init (\<lambda>t. False) 0 overlay_timeout_300 wdog_world)))
       = 300
   \<and> trace (snd (snd (sd109_wdog_init (\<lambda>t. False) 0 overlay_timeout_300 wdog_world)))
       = [RegRead SD109_WDOG_TIMEOUT]"
proof -
  have "\<not> next_fails wdog_world"
    by (simp add: wdog_world_def quiet_world_def next_fails_def)
  then show ?thesis
    by (simp add: wdog_init_ok Let_def overlay_timeout_300_def wdog_world_def
        quiet_world_def dev_info_def register_facade_def)
qed

section \<open>Probe\<close>

lemma ucast_u16_u32_u16: "(ucast (ucast (r :: u16) :: u32) :: u16) = r"
  by (rule bit_word_eqI) (auto simp add: bit_simps)

lemma chip_id_ucast: "(ucast (r :: u16) :: u32) = 0xd109 \<longleftrightarrow> r = 0xd109"
proof
  assume "(ucast r :: u32) = 0xd109"
  then have "(ucast (ucast r :: u32) :: u16) = ucast (0xd109 :: u32)" by simp
  then show "r = 0xd109" by (simp add: ucast_u16_u32_u16)
next
  assume "r = 0xd109"
  then show "(ucast r :: u32) = 0xd109" by simp
qed

text \<open>
  Claim C9. When the chip-id register is read and holds anything but 0xd109,
  \<open>sd109_probe\<close> returns \<open>-ENODEV\<close>; the read of the chip-id register is its only bus
  transaction (neither the firmware version nor the status is read), it prints the
  mismatch, the driver data stay zeroed, and nothing is registered: no hwmon device, no
  watchdog, no clock, no reboot notifier.
\<close>

theorem probe_chip_id_mismatch:
  "regmap_error pf = None \<Longrightarrow> \<not> kzalloc_fails pf \<Longrightarrow> \<not> next_fails w \<Longrightarrow>
   regs w SD109_CHIP_ID_REG \<noteq> 0xd109 \<Longrightarrow>
   (sd109_probe pf w :: int \<times> ('j::len) word sd109_private option \<times> world) =
     (- ENODEV, Some sd109_private_zero,
      w\<lparr>outcomes := tl (outcomes w), trace := trace w @ [RegRead SD109_CHIP_ID_REG],
         klog := klog w @ [(KERN_ERR, ''Invalid chip id: %x'')]\<rparr>)
   \<and> registered (snd (snd (sd109_probe pf w
         :: int \<times> ('j::len) word sd109_private option \<times> world))) = registered w"
  by (simp add: sd109_probe_def regmap_read_def next_ret_ok chip_id_ucast dev_err_def)

theorem probe_chip_id_mismatch_witness:
  "regmap_error plain_platform = None \<and> \<not> kzalloc_fails plain_platform
   \<and> \<not> next_fails quiet_world \<and> regs quiet_world SD109_CHIP_ID_REG \<noteq> 0xd109
   \<and> fst (sd109_probe plain_platform quiet_world
            :: int \<times> 64 word sd109_private option \<times> world) = - ENODEV
   \<and> trace (snd (snd (sd109_probe plain_platform quiet_world
            :: int \<times> 64 word sd109_private option \<times> world))) = [RegRead SD109_CHIP_ID_REG]
   \<and> registered (snd (snd (sd109_probe plain_platform quiet_world
            :: int \<times> 64 word sd109_private option \<times> world))) = []"
proof -
  have p: "regmap_error plain_platform = None" "\<not> kzalloc_fails plain_platform"
    by (simp_all add: plain_platform_def)
  have q: "\<not> next_fails quiet_world" "regs quiet_world SD109_CHIP_ID_REG \<noteq> 0xd109"
    "trace quiet_world = []" "registered quiet_world = []"
    by (simp_all add: quiet_world_def next_fails_def)
  from probe_chip_id_mismatch [OF p q(1,2), where ?'j = 64] p q
  show ?thesis by simp
qed

text \<open>
  For comparison, on an SD109 the same platform gets all four registrations, after
  reading chip id, firmware version, status and the watchdog register.
\<close>

lemma probe_sd109_example:
  "fst (sd109_probe plain_platform sd109_world
          :: int \<times> 64 word sd109_private option \<times> world) = 0
   \<and> registered (snd (snd (sd109_probe plain_platform sd109_world
          :: int \<times> 64 word sd109_private option \<times> world)))
       = [HWMON, WATCHDOG, RTC, REBOOT_NOTIFIER]
   \<and> trace (snd (snd (sd109_probe plain_platform sd109_world
          :: int \<times> 64 word sd109_private option \<times> world)))
       = [RegRead SD109_CHIP_ID_REG, RegRead SD109_CHIP_VER_REG, RegRead SD109_STATUS,
          RegRead SD109_WDOG_TIMEOUT]"
  by (simp add: sd109_probe_def sd109_wdog_init_def sd109_rtc_init_def regmap_read_def
      next_ret_def next_fails_def plain_platform_def sd109_world_def quiet_world_def
      status_message_def dev_info_def dev_err_def register_facade_def Let_def
      word_sless_alt)

section \<open>Voltage readings\<close>

text \<open>A channel number below 5 passes the signed test and survives the cast to \<open>u8\<close>.\<close>

lemma channel_cases:
  assumes "(channel :: s32) < 5"
  shows "channel = 0 \<or> channel = 1 \<or> channel = 2 \<or> channel = 3 \<or> channel = 4"
proof -
  from assms have "unat channel < 5" by (simp add: word_less_nat_alt)
  then consider "unat channel = 0" | "unat channel = 1" | "unat channel = 2"
    | "unat channel = 3" | "unat channel = 4" by arith
  then show ?thesis
  proof cases
    case 1
    then have "word_of_nat (unat channel) = (word_of_nat 0 :: s32)" by simp
    then show ?thesis by simp
  next
    case 2
    then have "word_of_nat (unat channel) = (word_of_nat 1 :: s32)" by simp
    then show ?thesis by simp
  next
    case 3
    then have "word_of_nat (unat channel) = (word_of_nat 2 :: s32)" by simp
    then show ?thesis by simp
  next
    case 4
    then have "word_of_nat (unat channel) = (word_of_nat 3 :: s32)" by simp
    then show ?thesis by simp
  next
    case 5
    then have "word_of_nat (unat channel) = (word_of_nat 4 :: s32)" by simp
    then show ?thesis by simp
  qed
qed

lemma channel_ok:
  assumes "(channel :: s32) < 5"
  shows "channel <s 5" and "unat (ucast channel :: u8) = unat channel"
    and "unat channel < 5"
  using channel_cases [OF assms] by (auto simp add: word_sless_alt)

lemma regmap_read_fail:
  "next_fails w \<Longrightarrow>
   regmap_read reg old w =
     (next_ret w, old,
      w\<lparr>outcomes := tl (outcomes w), trace := trace w @ [RegRead reg]\<rparr>)"
  by (simp add: regmap_read_def)

lemma get_voltage_read_fails:
  assumes "next_fails w" and "unat ch < NUM_CH_VIN"
    and "time_after j0 (volt_updated data ! unat ch + HZ) \<or> \<not> volt_valid data ! unat ch"
  shows "sd109_get_voltage HZ j0 j1 ch data w =
           (0, data,
            w\<lparr>outcomes := tl (outcomes w),
               trace := trace w @ [RegRead (SD109_VOLTAGE_5V_BOARD + unat ch * 3)],
               klog := klog w @ [(KERN_ERR, ''failed to read I2C when get voltage'')]\<rparr>)"
  using assms next_ret_fail [OF assms(1)]
  by (simp add: sd109_get_voltage_def regmap_read_fail dev_err_def)

lemma get_voltage_max_read_fails:
  assumes "next_fails w" and "unat ch < NUM_CH_VIN"
    and "time_after j0 (volt_max_updated data ! unat ch + HZ)
           \<or> \<not> volt_max_valid data ! unat ch"
  shows "sd109_get_voltage_max HZ j0 j1 ch data w =
           (0, data,
            w\<lparr>outcomes := tl (outcomes w),
               trace := trace w @ [RegRead (SD109_VOLTAGE_5V_BOARD_MAX + unat ch * 3)],
               klog := klog w
                 @ [(KERN_ERR, ''failed to read I2C when get MAX voltage'')]\<rparr>)"
  using assms next_ret_fail [OF assms(1)]
  by (simp add: sd109_get_voltage_max_def regmap_read_fail dev_err_def)

lemma get_voltage_min_read_fails:
  assumes "next_fails w" and "unat ch < NUM_CH_VIN"
    and "time_after j0 (volt_min_updated data ! unat ch + HZ)
           \<or> \<not> volt_min_valid data ! unat ch"
  shows "sd109_get_voltage_min HZ j0 j1 ch data w =
           (0, data,
            w\<lparr>outcomes := tl (outcomes w),
               trace := trace w @ [RegRead (SD109_VOLTAGE_5V_BOARD_MIN + unat ch * 3)],
               klog := klog w
                 @ [(KERN_ERR, ''failed to read I2C when get MIN voltage'')]\<rparr>)"
  using assms next_ret_fail [OF assms(1)]
  by (simp add: sd109_get_voltage_min_def regmap_read_fail dev_err_def)

text \<open>
  Claim C2, as amended. For each of the three kinds and every channel below 5: when the
  slot is invalid or older than the refresh interval and the register read fails,
  \<open>sd109_read_in\<close> issues that one read, prints the failure, and still returns 0
  (success) with the value 0 stored for the caller: the error is not propagated. The
  driver's data are unchanged, so the slot keeps its value, its time of refresh and its
  valid flag.
\<close>

theorem read_in_read_failure:
  assumes "next_fails w" and "channel < 5"
  shows
    "(time_after ja (volt_updated data ! unat channel + HZ)
        \<or> \<not> volt_valid data ! unat channel \<longrightarrow>
      sd109_read_in HZ ja jb hwmon_in_input channel data w =
        (0, Some 0, data,
         w\<lparr>outcomes := tl (outcomes w),
            trace := trace w @ [RegRead (SD109_VOLTAGE_5V_BOARD + unat channel * 3)],
            klog := klog w @ [(KERN_ERR, ''failed to read I2C when get voltage'')]\<rparr>))
     \<and> (time_after ja (volt_min_updated data ! unat channel + HZ)
          \<or> \<not> volt_min_valid data ! unat channel \<longrightarrow>
        sd109_read_in HZ ja jb hwmon_in_min channel data w =
          (0, Some 0, data,
           w\<lparr>outcomes := tl (outcomes w),
              trace := trace w @ [RegRead (SD109_VOLTAGE_5V_BOARD_MIN + unat channel * 3)],
              klog := klog w
                @ [(KERN_ERR, ''failed to read I2C when get MIN voltage'')]\<rparr>))
     \<and> (time_after ja (volt_max_updated data ! unat channel + HZ)
          \<or> \<not> volt_max_valid data ! unat channel \<longrightarrow>
        sd109_read_in HZ ja jb hwmon_in_max channel data w =
          (0, Some 0, data,
           w\<lparr>outcomes := tl (outcomes w),
              trace := trace w @ [RegRead (SD109_VOLTAGE_5V_BOARD_MAX + unat channel * 3)],
              klog := klog w
                @ [(KERN_ERR, ''failed to read I2C when get MAX voltage'')]\<rparr>))"
proof -
  note ch = channel_ok [OF assms(2)]
  have c: "unat (ucast channel :: u8) < NUM_CH_VIN"
    using ch(2,3) by simp
  show ?thesis
    using ch(1)
      get_voltage_read_fails [OF assms(1) c, of ja data HZ jb]
      get_voltage_min_read_fails [OF assms(1) c, of ja data HZ jb]
      get_voltage_max_read_fails [OF assms(1) c, of ja data HZ jb]
    by (simp add: sd109_read_in_def ch(2))
qed

theorem read_in_read_failure_witness:
  "next_fails failing_world \<and> (2 :: s32) < 5
   \<and> \<not> volt_valid (sd109_private_zero :: 64 word sd109_private) ! unat (2 :: s32)
   \<and> \<not> volt_min_valid (sd109_private_zero :: 64 word sd109_private) ! unat (2 :: s32)
   \<and> \<not> volt_max_valid (sd109_private_zero :: 64 word sd109_private) ! unat (2 :: s32)
   \<and> sd109_read_in (100 :: 64 word) 1000 1000 hwmon_in_input 2 sd109_private_zero
        failing_world
       = (0, Some 0, sd109_private_zero,
          failing_world\<lparr>outcomes := [], trace := [RegRead 0x10],
            klog := [(KERN_ERR, ''failed to read I2C when get voltage'')]\<rparr>)
   \<and> sd109_read_in (100 :: 64 word) 1000 1000 hwmon_in_min 2 sd109_private_zero
        failing_world
       = (0, Some 0, sd109_private_zero,
          failing_world\<lparr>outcomes := [], trace := [RegRead 0x11],
            klog := [(KERN_ERR, ''failed to read I2C when get MIN voltage'')]\<rparr>)
   \<and> sd109_read_in (100 :: 64 word) 1000 1000 hwmon_in_max 2 sd109_private_zero
        failing_world
       = (0, Some 0, sd109_private_zero,
          failing_world\<lparr>outcomes := [], trace := [RegRead 0x12],
            klog := [(KERN_ERR, ''failed to read I2C when get MAX voltage'')]\<rparr>)"
proof -
  have f: "next_fails failing_world" "outcomes failing_world = [5]"
    "trace failing_world = []" "klog failing_world = []"
    by (simp_all add: failing_world_def quiet_world_def next_fails_def)
  have c: "(2 :: s32) < 5" by simp
  have v: "\<not> volt_valid (sd109_private_zero :: 64 word sd109_private) ! unat (2 :: s32)"
    "\<not> volt_min_valid (sd109_private_zero :: 64 word sd109_private) ! unat (2 :: s32)"
    "\<not> volt_max_valid (sd109_private_zero :: 64 word sd109_private) ! unat (2 :: s32)"
    by (simp_all add: sd109_private_zero_def)
  from f c v
    read_in_read_failure [OF f(1) c, where ja = "1000 :: 64 word" and jb = 1000
      and HZ = 100 and data = sd109_private_zero]
  show ?thesis by simp
qed

text \<open>
  The claim as it was stated fails: on a bus whose next transaction fails, reading the
  input of channel 0 from freshly zeroed driver data (slot invalid, so the register is
  read) returns 0, success, with the value 0.
\<close>

theorem read_in_error_not_propagated_counterexample:
  "next_fails failing_world
   \<and> \<not> volt_valid (sd109_private_zero :: 64 word sd109_private) ! 0
   \<and> fst (sd109_read_in (100 :: 64 word) 1000 1000 hwmon_in_input 0 sd109_private_zero
             failing_world) = 0
   \<and> fst (snd (sd109_read_in (100 :: 64 word) 1000 1000 hwmon_in_input 0
                  sd109_private_zero failing_world)) = Some 0"
  by (simp add: sd109_read_in_def sd109_get_voltage_def regmap_read_def next_fails_def
      next_ret_def failing_world_def quiet_world_def sd109_private_zero_def dev_err_def
      word_sless_alt)

section \<open>The voltage cache\<close>

text \<open>
  The age test in ticks. With \<open>u\<close> the time of the last refresh and \<open>j\<close> the time of
  the call, \<open>j - u\<close> is the number of ticks elapsed, as far as a wrapping counter can
  tell: up to \<open>HZ\<close> ticks the slot is fresh, beyond \<open>HZ\<close> ticks it is stale (for as
  long as the signed comparison of \<open>time_after\<close> sees the difference, half the range of
  the counter).
\<close>

lemma sint_neg_iff: "sint (w::'a::len word) < 0 \<longleftrightarrow> 2 ^ (LENGTH('a) - 1) \<le> uint w"
proof (cases "uint w < 2 ^ (LENGTH('a) - 1)")
  case True
  have "- (2 ^ (LENGTH('a) - 1)) \<le> uint w"
    by (rule order_trans [of _ 0]) simp_all
  with True have "sint w = uint w"
    by (simp add: sint_uint signed_take_bit_int_eq_self)
  with True show ?thesis by simp
next
  case False
  then have le: "2 ^ (LENGTH('a) - 1) \<le> uint w" by simp
  then have "signed_take_bit (LENGTH('a) - 1) (uint w) \<le> uint w - 2 ^ Suc (LENGTH('a) - 1)"
    by (rule signed_take_bit_int_less_eq)
  moreover have "uint w < 2 ^ Suc (LENGTH('a) - 1)"
    using uint_lt2p [of w] by simp
  moreover have "sint w = signed_take_bit (LENGTH('a) - 1) (uint w)"
    using sint_uint [of w] by (simp only: One_nat_def)
  ultimately have "sint w < 0" by linarith
  with le show ?thesis by simp
qed

lemma time_after_sub: "time_after j (u + HZ) \<longleftrightarrow> sint (HZ - (j - u)) < 0"
  by (simp add: time_after_def algebra_simps)

lemma time_after_within:
  fixes j u HZ :: "'j::len word"
  assumes "uint HZ < 2 ^ (LENGTH('j) - 1)" and "uint (j - u) \<le> uint HZ"
  shows "\<not> time_after j (u + HZ)"
proof -
  have "uint (HZ - (j - u)) = uint HZ - uint (j - u)"
    using assms(2) by (simp add: uint_sub_if_size)
  also have "\<dots> < 2 ^ (LENGTH('j) - 1)"
    using assms(1) by (smt (verit) uint_ge_0)
  finally show ?thesis
    by (simp add: time_after_sub sint_neg_iff)
qed

lemma time_after_elapsed:
  fixes j u HZ :: "'j::len word"
  assumes "uint HZ < uint (j - u)" and "uint (j - u) \<le> uint HZ + 2 ^ (LENGTH('j) - 1)"
  shows "time_after j (u + HZ)"
proof -
  have p: "(2::int) ^ LENGTH('j) = 2 * 2 ^ (LENGTH('j) - 1)"
    by (metis len_gt_0 power_eq_if less_numeral_extra(3))
  have "uint (HZ - (j - u)) = uint HZ - uint (j - u) + 2 ^ LENGTH('j)"
    using assms(1) by (simp add: uint_sub_if_size word_size)
  then have "2 ^ (LENGTH('j) - 1) \<le> uint (HZ - (j - u))"
    using assms(2) p by simp
  then show ?thesis
    by (simp add: time_after_sub sint_neg_iff)
qed

lemma get_voltage_refresh:
  assumes "unat ch < NUM_CH_VIN"
    and "time_after j0 (volt_updated data ! unat ch + HZ) \<or> \<not> volt_valid data ! unat ch"
  shows "trace (snd (snd (sd109_get_voltage HZ j0 j1 ch data w)))
           = trace w @ [RegRead (SD109_VOLTAGE_5V_BOARD + unat ch * 3)]"
  using assms
  by (simp add: sd109_get_voltage_def regmap_read_def dev_err_def split: prod.splits)

lemma get_voltage_refresh_ok:
  assumes "unat ch < NUM_CH_VIN"
    and "time_after j0 (volt_updated data ! unat ch + HZ) \<or> \<not> volt_valid data ! unat ch"
    and "\<not> next_fails w"
  shows "sd109_get_voltage HZ j0 j1 ch data w =
           (ucast (regs w (SD109_VOLTAGE_5V_BOARD + unat ch * 3)),
            data\<lparr>volt := (volt data)
                           [unat ch := regs w (SD109_VOLTAGE_5V_BOARD + unat ch * 3)],
                 volt_updated := (volt_updated data)[unat ch := j1],
                 volt_valid := (volt_valid data)[unat ch := True]\<rparr>,
            w\<lparr>outcomes := tl (outcomes w),
               trace := trace w @ [RegRead (SD109_VOLTAGE_5V_BOARD + unat ch * 3)]\<rparr>)"
  using assms
  by (simp add: sd109_get_voltage_def regmap_read_def next_ret_ok ucast_u16_u32_u16)

lemma get_voltage_cached:
  assumes "unat ch < NUM_CH_VIN"
    and "\<not> time_after j (volt_updated data ! unat ch + HZ)" and "volt_valid data ! unat ch"
  shows "sd109_get_voltage HZ j j' ch data w = (ucast (volt data ! unat ch), data, w)"
  using assms by (simp add: sd109_get_voltage_def)

text \<open>
  Claim C8. Take a channel below 5 and a first call of \<open>sd109_get_voltage\<close> that reads
  the register (the slot was invalid or stale) and succeeds, storing the time \<open>jb\<close>. A
  second call no more than \<open>HZ\<close> ticks (one second) after \<open>jb\<close> returns the same value
  and changes neither the driver's data nor the world: no bus access, so the two calls
  issued exactly one register read. A further call more than \<open>HZ\<close> ticks after \<open>jb\<close>
  issues a second read of the same register.
\<close>

theorem voltage_cache_reads:
  fixes HZ :: "'j::len word"
  assumes "arrays_ok data" and "unat ch < NUM_CH_VIN"
    and "uint HZ < 2 ^ (LENGTH('j) - 1)"
    and "time_after ja (volt_updated data ! unat ch + HZ) \<or> \<not> volt_valid data ! unat ch"
    and "\<not> next_fails w"
    and "uint (jc - jb) \<le> uint HZ"
    and "uint HZ < uint (je - jb)" and "uint (je - jb) \<le> uint HZ + 2 ^ (LENGTH('j) - 1)"
    and "sd109_get_voltage HZ ja jb ch data w = (va, da, wa)"
    and "sd109_get_voltage HZ jc jd ch da wa = (vc, dc, wc)"
    and "sd109_get_voltage HZ je jf ch dc wc = (ve, de, we)"
  shows "trace wa = trace w @ [RegRead (SD109_VOLTAGE_5V_BOARD + unat ch * 3)]
         \<and> va = ucast (regs w (SD109_VOLTAGE_5V_BOARD + unat ch * 3))
         \<and> vc = va \<and> dc = da \<and> wc = wa
         \<and> trace we = trace w @ [RegRead (SD109_VOLTAGE_5V_BOARD + unat ch * 3),
                                  RegRead (SD109_VOLTAGE_5V_BOARD + unat ch * 3)]"
proof -
  let ?reg = "SD109_VOLTAGE_5V_BOARD + unat ch * 3"
  from assms(1,2) have len: "unat ch < length (volt data)"
    "unat ch < length (volt_updated data)" "unat ch < length (volt_valid data)"
    by (simp_all add: arrays_ok_def)
  from get_voltage_refresh_ok [OF assms(2,4,5), of jb] assms(9)
  have va: "va = ucast (regs w ?reg)"
    and da: "da = data\<lparr>volt := (volt data)[unat ch := regs w ?reg],
                 volt_updated := (volt_updated data)[unat ch := jb],
                 volt_valid := (volt_valid data)[unat ch := True]\<rparr>"
    and wa: "wa = w\<lparr>outcomes := tl (outcomes w), trace := trace w @ [RegRead ?reg]\<rparr>"
    by simp_all
  from da len have slot: "volt da ! unat ch = regs w ?reg" "volt_updated da ! unat ch = jb"
    "volt_valid da ! unat ch"
    by simp_all
  have fresh: "\<not> time_after jc (volt_updated da ! unat ch + HZ)"
    using time_after_within [OF assms(3,6)] slot(2) by simp
  from get_voltage_cached [OF assms(2) fresh slot(3), of jd wa] assms(10) slot(1) va
  have second: "vc = va" "dc = da" "wc = wa"
    by simp_all
  have stale: "time_after je (volt_updated dc ! unat ch + HZ) \<or> \<not> volt_valid dc ! unat ch"
    using time_after_elapsed [OF assms(7,8)] slot(2) second(2) by simp
  from get_voltage_refresh [OF assms(2) stale, of jf wc] assms(11) second(3) wa
  have "trace we = trace w @ [RegRead ?reg, RegRead ?reg]"
    by simp
  with va wa second show ?thesis by simp
qed

text \<open>
  With 64-bit ticks at 100 per second, on a device whose channel 0 reads 5000: a first
  call at tick 1000 (stored at 1001), a second at 1050, a third at 1200.
\<close>

theorem voltage_cache_reads_witness:
  "(let ra = sd109_get_voltage (100 :: 64 word) 1000 1001 0 sd109_private_zero volt_world;
        rc = sd109_get_voltage (100 :: 64 word) 1050 1050 0 (fst (snd ra)) (snd (snd ra));
        re = sd109_get_voltage (100 :: 64 word) 1200 1201 0 (fst (snd rc)) (snd (snd rc))
    in fst ra = 5000 \<and> trace (snd (snd ra)) = [RegRead SD109_VOLTAGE_5V_BOARD]
       \<and> fst rc = 5000 \<and> trace (snd (snd rc)) = [RegRead SD109_VOLTAGE_5V_BOARD]
       \<and> trace (snd (snd re))
           = [RegRead SD109_VOLTAGE_5V_BOARD, RegRead SD109_VOLTAGE_5V_BOARD])"
proof -
  define ra where
    "ra = sd109_get_voltage (100 :: 64 word) 1000 1001 0 sd109_private_zero volt_world"
  define rc where
    "rc = sd109_get_voltage (100 :: 64 word) 1050 1050 0 (fst (snd ra)) (snd (snd ra))"
  define re where
    "re = sd109_get_voltage (100 :: 64 word) 1200 1201 0 (fst (snd rc)) (snd (snd rc))"
  have a: "arrays_ok (sd109_private_zero :: 64 word sd109_private)"
    by (simp add: arrays_ok_def sd109_private_zero_def)
  have c: "unat (0 :: u8) < NUM_CH_VIN" by simp
  have h: "uint (100 :: 64 word) < 2 ^ (LENGTH(64) - 1)" by simp
  have s: "time_after (1000 :: 64 word)
             (volt_updated (sd109_private_zero :: 64 word sd109_private) ! unat (0 :: u8) + 100)
           \<or> \<not> volt_valid (sd109_private_zero :: 64 word sd109_private) ! unat (0 :: u8)"
    by (simp add: sd109_private_zero_def)
  have q: "\<not> next_fails volt_world"
    by (simp add: volt_world_def quiet_world_def next_fails_def)
  have w: "uint ((1050 :: 64 word) - 1001) \<le> uint (100 :: 64 word)" by simp
  have e: "uint (100 :: 64 word) < uint ((1200 :: 64 word) - 1001)"
    "uint ((1200 :: 64 word) - 1001) \<le> uint (100 :: 64 word) + 2 ^ (LENGTH(64) - 1)"
    by simp_all
  have ea: "sd109_get_voltage (100 :: 64 word) 1000 1001 0 sd109_private_zero volt_world
              = (fst ra, fst (snd ra), snd (snd ra))"
    by (simp add: ra_def)
  have ec: "sd109_get_voltage (100 :: 64 word) 1050 1050 0 (fst (snd ra)) (snd (snd ra))
              = (fst rc, fst (snd rc), snd (snd rc))"
    by (simp add: rc_def)
  have ee: "sd109_get_voltage (100 :: 64 word) 1200 1201 0 (fst (snd rc)) (snd (snd rc))
              = (fst re, fst (snd re), snd (snd re))"
    by (simp add: re_def)
  have r: "regs volt_world SD109_VOLTAGE_5V_BOARD = 5000" "trace volt_world = []"
    by (simp_all add: volt_world_def quiet_world_def)
  from voltage_cache_reads [OF a c h s q w e ea ec ee] r
  have "fst ra = 5000 \<and> trace (snd (snd ra)) = [RegRead SD109_VOLTAGE_5V_BOARD]
       \<and> fst rc = 5000 \<and> trace (snd (snd rc)) = [RegRead SD109_VOLTAGE_5V_BOARD]
       \<and> trace (snd (snd re))
           = [RegRead SD109_VOLTAGE_5V_BOARD, RegRead SD109_VOLTAGE_5V_BOARD]"
    by simp
  then show ?thesis
    by (simp add: Let_def ra_def rc_def re_def)
qed

end
